theory Spec2Isabelle
  imports Main
begin

section \<open>The transport layer of the Asana client\<close>

text \<open>
  A shallow embedding of the request/response transport of the client
  (\<^verbatim>\<open>getURL\<close>, \<^verbatim>\<open>mergeQuery\<close>, \<^verbatim>\<open>get\<close>, \<^verbatim>\<open>post\<close>, \<^verbatim>\<open>put\<close>, \<^verbatim>\<open>do\<close>,
  \<^verbatim>\<open>postMultipart\<close>, \<^verbatim>\<open>parseResponse\<close>, \<^verbatim>\<open>parseResponseData\<close>) and of the listing
  helpers \<^verbatim>\<open>Projects\<close>, \<^verbatim>\<open>AllProjects\<close> and \<^verbatim>\<open>CreateSection\<close>.

  Conventions.
  \<^item> A Go function that returns \<^verbatim>\<open>(value, error)\<close> returns a \<open>result\<close>: \<open>Ok\<close> the value,
    \<open>Err\<close> the error, or \<open>Panic\<close> when the call unwinds with a panic.
  \<^item> Everything a call changes is passed in and returned: the store of caller-owned
    \<^verbatim>\<open>Options\<close> objects, the trace of HTTP requests issued, the state of the network,
    the caller's destination and the upload stream.
  \<^item> Library calls whose behaviour depends on declarations that are not part of the
    transport source (the tags of the \<^verbatim>\<open>Options\<close> struct, the dynamic type of the
    destination, URL syntax, the random multipart boundary) are fields of the record
    \<open>lib\<close>; every theorem holds for every such library behaviour.
  \<^item> The \<^verbatim>\<open>Debug\<close> log lines are not modelled.
\<close>

subsection \<open>Errors and results\<close>

datatype json =
    JNull
  | JBool bool
  | JNumber string
  | JString string
  | JArray "json list"
  | JObject "(string \<times> json) list"

text \<open>
  Modelled from the spec: the struct \<^verbatim>\<open>Error\<close> (one entry of the envelope's
  \<^verbatim>\<open>errors\<close> list) is declared outside the transport source. The spec's example
  envelope \<^verbatim>\<open>{"errors":[{"message":"not found"}]}\<close> gives it a message.
\<close>

record Error =
  Message :: string

text \<open>
  Go's \<^verbatim>\<open>error\<close> values. \<open>Failure msg\<close> is an error made by \<^verbatim>\<open>errors.New\<close>, by a
  payload's \<^verbatim>\<open>Validate\<close> or by a library; \<open>Wrap err msg\<close> is \<^verbatim>\<open>errors.Wrap(err, msg)\<close>.
  \<open>APIError\<close> is the value of \<^verbatim>\<open>value.Error(resp)\<close>, see \<open>Response_Error\<close> below.
\<close>

datatype error =
    Failure string
  | Wrap error string
  | APIError int "Error option list"

datatype 'a result = Panic string | Err error | Ok 'a

subsection \<open>Data model\<close>

text \<open>
  Modelled from the spec: the struct \<^verbatim>\<open>Options\<close> is declared outside the transport
  source. The spec lists a pagination page size, a raw opaque pagination offset token and
  a field-expansion selector list, and names a pretty-print flag; \<^verbatim>\<open>AllProjects\<close> sets
  \<^verbatim>\<open>Limit\<close> (an integer) and \<^verbatim>\<open>Offset\<close> (a string).
\<close>

record Options =
  Pretty :: bool
  Fields :: "string list"
  Limit :: int
  Offset :: string

definition Options_zero :: Options where
  "Options_zero = \<lparr>Pretty = False, Fields = [], Limit = 0, Offset = []\<rparr>"

record NextPage =
  np_Offset :: string
  np_Path :: string
  np_URI :: string

definition NextPage_zero :: NextPage where
  "NextPage_zero = \<lparr>np_Offset = [], np_Path = [], np_URI = []\<rparr>"

text \<open>
  An API response. \<open>Data\<close> is a \<^verbatim>\<open>json.RawMessage\<close>: \<open>None\<close> is the nil slice, \<open>Some j\<close>
  the bytes of the JSON text \<open>j\<close>. An element of \<open>Errors\<close> is a pointer, \<open>None\<close> when nil.
\<close>

record Response =
  Data :: "json option"
  NextPage :: "NextPage option"
  Errors :: "Error option list"

definition Response_zero :: Response where
  "Response_zero = \<lparr>Data = None, NextPage = None, Errors = []\<rparr>"

text \<open>
  The query parameters \<^verbatim>\<open>url.Values\<close>, a Go map from a key to its list of values, as an
  association list with one entry for each key.
\<close>

type_synonym url_Values = "(string \<times> string list) list"

text \<open>
  A payload (\<^verbatim>\<open>data interface{}\<close>) is known to the transport through three calls only:
  the type assertion to \<^verbatim>\<open>Validator\<close> followed by \<^verbatim>\<open>Validate()\<close> (\<open>None\<close>: the payload
  has no such method; \<open>Some None\<close>: it returns nil; \<open>Some (Some e)\<close>: it returns \<open>e\<close>),
  \<^verbatim>\<open>query.Values(data)\<close> and \<^verbatim>\<open>json.Marshal(data)\<close>.
\<close>

record payload =
  Validate :: "error option option"
  query_Values :: "error + url_Values"
  json_Marshal :: "error + json"

text \<open>
  A \<^verbatim>\<open>*Options\<close>: nil, a reference to an object the caller owns (in the store), or an
  object made by the transport itself with \<^verbatim>\<open>&Options{...}\<close>, for which no other
  reference exists; the latter is carried by value.
\<close>

type_synonym addr = nat

datatype Options_ptr = Nil | Ref addr | Tmp Options

text \<open>The body of \<^verbatim>\<open>do\<close>'s request: the bytes \<^verbatim>\<open>json.Marshal\<close> gives for
  \<^verbatim>\<open>request{Data, Options}\<close>, kept as the JSON of the payload and the
  \<^verbatim>\<open>Options\<close> value marshalled with it.\<close>

datatype http_body =
    NoBody
  | JSON_request json Options
  | Bytes string

record http_request =
  Method :: string
  URL :: string
  Header :: "(string \<times> string) list"
  Body :: http_body

text \<open>
  A response body: reading it fails, or its bytes are not a JSON text
  (\<^verbatim>\<open>json.Unmarshal\<close> reports a syntax error), or they are the JSON text \<open>j\<close>.
\<close>

datatype response_body =
    ReadError error
  | NotJSON error
  | JSON json

record http_response =
  StatusCode :: int
  RespBody :: response_body

text \<open>Library behaviour taken as a parameter.\<close>

record 'd lib =
  query_Values_Options :: "Options \<Rightarrow> error + url_Values"
  Values_Encode :: "url_Values \<Rightarrow> string"
  http_NewRequest_error :: "string \<Rightarrow> string \<Rightarrow> error option"
  json_Unmarshal :: "json \<Rightarrow> 'd \<Rightarrow> 'd \<times> error option"
  RandomBoundary :: string

text \<open>
  The client. \<open>HTTPClient\<close> is \<^verbatim>\<open>c.HTTPClient.Do\<close>: from a request and the state of the
  network, a response or a transport error, and the next state of the network.
\<close>

record 's Client =
  BaseURL :: string
  HTTPClient :: "http_request \<Rightarrow> 's \<Rightarrow> (error + http_response) \<times> 's"
  Debug :: bool
  Verbose :: "bool list"
  FastAPI :: bool
  DefaultOptions :: Options

record 's world =
  store :: "addr \<Rightarrow> Options"
  sent :: "http_request list"
  net :: 's

definition HTTPClient_Do ::
  "'s Client \<Rightarrow> http_request \<Rightarrow> 's world \<Rightarrow> (error + http_response) \<times> 's world" where
  "HTTPClient_Do c request w =
     (case HTTPClient c request (net w) of
        (r, s') \<Rightarrow> (r, w\<lparr>sent := sent w @ [request], net := s'\<rparr>))"

subsection \<open>URL construction\<close>

text \<open>A computation that returns no error value but may panic.\<close>

datatype 'a may_panic = Panics string | Returns 'a

definition getURL :: "'s Client \<Rightarrow> string \<Rightarrow> string may_panic" where
  "getURL c path =
     (case path of
        [] \<Rightarrow> Panics ''runtime error: index out of range [0] with length 0''
      | ch # _ \<Rightarrow>
          if ch \<noteq> CHR ''/'' then Panics ''Invalid API path''
          else Returns (BaseURL c @ path))"

subsection \<open>Decoding the response envelope\<close>

text \<open>
  \<^verbatim>\<open>json.Unmarshal(body, value)\<close> for \<^verbatim>\<open>value = &Response{}\<close>, by the rules of
  \<^verbatim>\<open>encoding/json\<close>: a null leaves a string or a struct as it is and sets a pointer or a
  slice to nil; a value of the wrong kind is a type error, which is returned after the
  rest has been decoded; a \<^verbatim>\<open>json.RawMessage\<close> field takes the bytes of its value,
  whatever it is, the literal \<^verbatim>\<open>null\<close> included. A decoder returns the value it
  has filled in and the first error, if any.

  A key of a JSON object is for the struct field whose tag it equals, or else equals
  under case folding: \<^verbatim>\<open>foldName\<close> puts the ASCII letters in upper case and takes the
  long s (the bytes C5 BF) to \<^verbatim>\<open>S\<close> and the Kelvin sign (the bytes E2 84 AA) to \<^verbatim>\<open>K\<close>,
  the two letters beyond ASCII that fold to an ASCII letter. The tags of one struct
  here stay distinct under folding, so a key is for a field when the two fold to the
  same name. Keys are taken in the order of the text; a later key for the same field
  decodes over the earlier one.
\<close>

definition toUpper :: "char \<Rightarrow> char" where
  "toUpper ch =
     (case map_of (zip ''abcdefghijklmnopqrstuvwxyz'' ''ABCDEFGHIJKLMNOPQRSTUVWXYZ'') ch of
        None \<Rightarrow> ch
      | Some u \<Rightarrow> u)"

fun foldName :: "string \<Rightarrow> string" where
  "foldName [] = []"
| "foldName (c # cs) =
     (if c = CHR 0xC5 \<and> take 1 cs = [CHR 0xBF] then CHR ''S'' # foldName (drop 1 cs)
      else if c = CHR 0xE2 \<and> take 2 cs = [CHR 0x84, CHR 0xAA]
      then CHR ''K'' # foldName (drop 2 cs)
      else toUpper c # foldName cs)"

definition key_is :: "string \<Rightarrow> string \<Rightarrow> bool" where
  "key_is tag key = (foldName key = foldName tag)"

definition type_error :: "string \<Rightarrow> error" where
  "type_error field = Failure (''json: cannot unmarshal value into Go struct field '' @ field)"

definition first_error :: "error option \<Rightarrow> error option \<Rightarrow> error option" where
  "first_error saved new = (case saved of None \<Rightarrow> new | Some e \<Rightarrow> Some e)"

definition Unmarshal_string :: "string \<Rightarrow> json \<Rightarrow> string \<Rightarrow> string \<times> error option" where
  "Unmarshal_string field j cur =
     (case j of
        JString s \<Rightarrow> (s, None)
      | JNull \<Rightarrow> (cur, None)
      | _ \<Rightarrow> (cur, Some (type_error field)))"

definition Unmarshal_NextPage_field ::
  "string \<times> json \<Rightarrow> NextPage \<times> error option \<Rightarrow> NextPage \<times> error option" where
  "Unmarshal_NextPage_field kv acc =
     (case (kv, acc) of ((k, j), (np, saved)) \<Rightarrow>
        if key_is ''offset'' k then
          (case Unmarshal_string ''NextPage.offset'' j (np_Offset np) of
             (s, e) \<Rightarrow> (np\<lparr>np_Offset := s\<rparr>, first_error saved e))
        else if key_is ''path'' k then
          (case Unmarshal_string ''NextPage.path'' j (np_Path np) of
             (s, e) \<Rightarrow> (np\<lparr>np_Path := s\<rparr>, first_error saved e))
        else if key_is ''uri'' k then
          (case Unmarshal_string ''NextPage.uri'' j (np_URI np) of
             (s, e) \<Rightarrow> (np\<lparr>np_URI := s\<rparr>, first_error saved e))
        else (np, saved))"

definition Unmarshal_NextPage :: "json \<Rightarrow> NextPage option \<Rightarrow> NextPage option \<times> error option" where
  "Unmarshal_NextPage j cur =
     (case j of
        JNull \<Rightarrow> (None, None)
      | JObject fs \<Rightarrow>
          (case fold Unmarshal_NextPage_field fs
                  (case cur of None \<Rightarrow> NextPage_zero | Some np \<Rightarrow> np, None) of
             (np, e) \<Rightarrow> (Some np, e))
      | _ \<Rightarrow> (case cur of None \<Rightarrow> Some NextPage_zero | Some np \<Rightarrow> Some np,
               Some (type_error ''Response.next_page'')))"

definition Unmarshal_Error_field ::
  "string \<times> json \<Rightarrow> Error \<times> error option \<Rightarrow> Error \<times> error option" where
  "Unmarshal_Error_field kv acc =
     (case (kv, acc) of ((k, j), (er, saved)) \<Rightarrow>
        if key_is ''message'' k then
          (case Unmarshal_string ''Error.message'' j (Message er) of
             (s, e) \<Rightarrow> (er\<lparr>Message := s\<rparr>, first_error saved e))
        else (er, saved))"

definition Unmarshal_Error :: "json \<Rightarrow> Error option \<times> error option" where
  "Unmarshal_Error j =
     (case j of
        JNull \<Rightarrow> (None, None)
      | JObject fs \<Rightarrow>
          (case fold Unmarshal_Error_field fs (\<lparr>Message = []\<rparr>, None) of
             (er, e) \<Rightarrow> (Some er, e))
      | _ \<Rightarrow> (Some \<lparr>Message = []\<rparr>, Some (type_error ''Response.errors'')))"

definition Unmarshal_Errors :: "json \<Rightarrow> Error option list \<Rightarrow> Error option list \<times> error option" where
  "Unmarshal_Errors j cur =
     (case j of
        JNull \<Rightarrow> ([], None)
      | JArray js \<Rightarrow>
          (map (\<lambda>x. fst (Unmarshal_Error x)) js,
           fold (\<lambda>x saved. first_error saved (snd (Unmarshal_Error x))) js None)
      | _ \<Rightarrow> (cur, Some (type_error ''Response.errors'')))"

definition Unmarshal_Response_field ::
  "string \<times> json \<Rightarrow> Response \<times> error option \<Rightarrow> Response \<times> error option" where
  "Unmarshal_Response_field kv acc =
     (case (kv, acc) of ((k, j), (v, saved)) \<Rightarrow>
        if key_is ''data'' k then (v\<lparr>Data := Some j\<rparr>, saved)
        else if key_is ''next_page'' k then
          (case Unmarshal_NextPage j (NextPage v) of
             (np, e) \<Rightarrow> (v\<lparr>NextPage := np\<rparr>, first_error saved e))
        else if key_is ''errors'' k then
          (case Unmarshal_Errors j (Errors v) of
             (es, e) \<Rightarrow> (v\<lparr>Errors := es\<rparr>, first_error saved e))
        else (v, saved))"

definition Unmarshal_Response :: "json \<Rightarrow> Response \<Rightarrow> Response \<times> error option" where
  "Unmarshal_Response body v =
     (case body of
        JNull \<Rightarrow> (v, None)
      | JObject fs \<Rightarrow> fold Unmarshal_Response_field fs (v, None)
      | _ \<Rightarrow> (v, Some (type_error ''Response'')))"

text \<open>
  Modelled from the spec: the method \<^verbatim>\<open>Response.Error\<close> is declared outside the
  transport source. By the spec it constructs a structured API error from the envelope's
  errors list and the raw status.
\<close>

definition Response_Error :: "Response \<Rightarrow> http_response \<Rightarrow> error" where
  "Response_Error v resp = APIError (StatusCode resp) (Errors v)"

definition parseResponseData :: "'d lib \<Rightarrow> json \<Rightarrow> 'd \<Rightarrow> 'd \<times> error option" where
  "parseResponseData lib data result =
     (case json_Unmarshal lib data result of
        (result', Some err) \<Rightarrow> (result', Some err)
      | (result', None) \<Rightarrow> (result', None))"

text \<open>
  \<^verbatim>\<open>parseResponse\<close> returns the envelope or the error, and the destination as the call
  leaves it. (Where the source returns the envelope together with an error of
  \<^verbatim>\<open>parseResponseData\<close>, its callers read the error only.)
\<close>

definition parseResponse :: "'d lib \<Rightarrow> http_response \<Rightarrow> 'd \<Rightarrow> Response result \<times> 'd" where
  "parseResponse lib resp result =
     (case RespBody resp of
        ReadError err \<Rightarrow> (Err err, result)
      | NotJSON err \<Rightarrow> (Err err, result)
      | JSON body \<Rightarrow>
          (case Unmarshal_Response body Response_zero of
             (_, Some err) \<Rightarrow> (Err err, result)
           | (v, None) \<Rightarrow>
               if StatusCode resp \<noteq> 200 \<and> StatusCode resp \<noteq> 201
               then (Err (Response_Error v resp), result)
               else
                 (case Data v of
                    None \<Rightarrow> (Err (Failure ''Missing data from response''), result)
                  | Some data \<Rightarrow>
                      (case parseResponseData lib data result of
                         (result', Some err) \<Rightarrow> (Err err, result')
                       | (result', None) \<Rightarrow> (Ok v, result')))))"

subsection \<open>Query parameters\<close>

text \<open>\<^verbatim>\<open>q.Del(key)\<close> and \<^verbatim>\<open>q.Add(key, value)\<close> of \<^verbatim>\<open>url.Values\<close>.\<close>

definition Values_Del :: "url_Values \<Rightarrow> string \<Rightarrow> url_Values" where
  "Values_Del q key = filter (\<lambda>kv. fst kv \<noteq> key) q"

fun Values_Add :: "url_Values \<Rightarrow> string \<Rightarrow> string \<Rightarrow> url_Values" where
  "Values_Add [] key val = [(key, [val])]"
| "Values_Add (kv # q) key val =
     (if fst kv = key then (fst kv, snd kv @ [val]) # q else kv # Values_Add q key val)"

text \<open>
  \<^verbatim>\<open>mergeQuery(q, request)\<close>; the second argument is what \<^verbatim>\<open>query.Values(request)\<close>
  returns. The map \<open>q\<close> is updated in place by the source and returned here.
\<close>

definition mergeQuery :: "url_Values \<Rightarrow> error + url_Values \<Rightarrow> error + url_Values" where
  "mergeQuery q request =
     (case request of
        Inl err \<Rightarrow> Inl (Wrap err ''Unable to marshal request to query parameters'')
      | Inr queryParams \<Rightarrow>
          Inr (fold (\<lambda>kv q. fold (\<lambda>val q. Values_Add q (fst kv) val) (snd kv)
                               (Values_Del q (fst kv)))
                 queryParams q))"

text \<open>\<^verbatim>\<open>query.Values\<close> of a \<^verbatim>\<open>*Options\<close>: a nil pointer gives no parameters.\<close>

definition query_Values_ptr ::
  "'d lib \<Rightarrow> (addr \<Rightarrow> Options) \<Rightarrow> Options_ptr \<Rightarrow> error + url_Values" where
  "query_Values_ptr lib st p =
     (case p of
        Nil \<Rightarrow> Inr []
      | Ref a \<Rightarrow> query_Values_Options lib (st a)
      | Tmp v \<Rightarrow> query_Values_Options lib v)"

text \<open>The \<^verbatim>\<open>Validator\<close> type switch and the call of \<^verbatim>\<open>Validate\<close>.\<close>

definition run_Validator :: "payload \<Rightarrow> error option" where
  "run_Validator d = (case Validate d of None \<Rightarrow> None | Some r \<Rightarrow> r)"

text \<open>A variadic \<^verbatim>\<open>opts ...*Options\<close> is a slice: nil (\<open>None\<close>) when the caller
  gives no argument. Ranging over a nil slice runs no iteration.\<close>

fun range_slice :: "'a list option \<Rightarrow> 'a list" where
  "range_slice None = []"
| "range_slice (Some xs) = xs"

text \<open>The loop \<^verbatim>\<open>for _, options := range opts\<close> of \<^verbatim>\<open>get\<close>.\<close>

fun merge_opts ::
  "'d lib \<Rightarrow> (addr \<Rightarrow> Options) \<Rightarrow> url_Values \<Rightarrow> Options_ptr list \<Rightarrow> error + url_Values" where
  "merge_opts lib st q [] = Inr q"
| "merge_opts lib st q (options # rest) =
     (case mergeQuery q (query_Values_ptr lib st options) of
        Inl err \<Rightarrow> Inl err
      | Inr q' \<Rightarrow> merge_opts lib st q' rest)"

text \<open>The first part of \<^verbatim>\<open>get\<close>, which builds the query parameters.\<close>

definition get_query ::
  "'s Client \<Rightarrow> 'd lib \<Rightarrow> payload option \<Rightarrow> Options_ptr list option \<Rightarrow> (addr \<Rightarrow> Options)
     \<Rightarrow> error + url_Values" where
  "get_query c lib data opts st =
     (case query_Values_Options lib (DefaultOptions c) of
        Inl err \<Rightarrow> Inl (Wrap err ''Unable to marshal DefaultOptions to query parameters'')
      | Inr q \<Rightarrow>
          (case (case data of
                   None \<Rightarrow> Inr q
                 | Some d \<Rightarrow>
                     (case run_Validator d of
                        Some err \<Rightarrow> Inl err
                      | None \<Rightarrow> mergeQuery q (query_Values d))) of
             Inl err \<Rightarrow> Inl err
           | Inr q' \<Rightarrow> merge_opts lib st q' (range_slice opts)))"

subsection \<open>Requests\<close>

definition http_NewRequest ::
  "'d lib \<Rightarrow> string \<Rightarrow> string \<Rightarrow> http_body \<Rightarrow> error + http_request" where
  "http_NewRequest lib method url body =
     (case http_NewRequest_error lib method url of
        Some err \<Rightarrow> Inl err
      | None \<Rightarrow> Inr \<lparr>Method = method, URL = url, Header = [], Body = body\<rparr>)"

definition Header_Add :: "http_request \<Rightarrow> string \<Rightarrow> string \<Rightarrow> http_request" where
  "Header_Add request key val = request\<lparr>Header := Header request @ [(key, val)]\<rparr>"

definition get ::
  "'s Client \<Rightarrow> 'd lib \<Rightarrow> string \<Rightarrow> payload option \<Rightarrow> 'd \<Rightarrow> Options_ptr list option \<Rightarrow> 's world
     \<Rightarrow> NextPage option result \<times> 'd \<times> 's world" where
  "get c lib path data result opts w =
     (case get_query c lib data opts (store w) of
        Inl err \<Rightarrow> (Err err, result, w)
      | Inr q \<Rightarrow>
          (case getURL c (if q \<noteq> [] then path @ ''?'' @ Values_Encode lib q else path) of
             Panics p \<Rightarrow> (Panic p, result, w)
           | Returns url \<Rightarrow>
               (case http_NewRequest lib ''GET'' url NoBody of
                  Inl err \<Rightarrow> (Err (Wrap err ''Request error''), result, w)
                | Inr request \<Rightarrow>
                    (case HTTPClient_Do c
                            (if FastAPI c then Header_Add request ''Asana-Fast-Api'' ''true''
                             else request) w of
                       (Inl err, w') \<Rightarrow> (Err (Wrap err ''GET error''), result, w')
                     | (Inr resp, w') \<Rightarrow>
                         (case parseResponse lib resp result of
                            (Ok resultData, result') \<Rightarrow> (Ok (NextPage resultData), result', w')
                          | (Err err, result') \<Rightarrow> (Err err, result', w')
                          | (Panic p, result') \<Rightarrow> (Panic p, result', w'))))))"

subsection \<open>Merging options\<close>

text \<open>
  \<^verbatim>\<open>mergo.Merge(dst, src)\<close> without override: a field of \<open>dst\<close> that holds the empty
  value of its type (\<^verbatim>\<open>false\<close>, \<^verbatim>\<open>0\<close>, the empty string, a slice of length 0) is set
  to the field of \<open>src\<close> when that one is not empty; every other field of \<open>dst\<close> stays.
  For a \<^verbatim>\<open>*Options\<close> and an \<^verbatim>\<open>Options\<close> it returns no error.
\<close>

definition merge_field :: "('a \<Rightarrow> bool) \<Rightarrow> 'a \<Rightarrow> 'a \<Rightarrow> 'a" where
  "merge_field isEmptyValue dst src =
     (if isEmptyValue dst \<and> \<not> isEmptyValue src then src else dst)"

definition deepMerge :: "Options \<Rightarrow> Options \<Rightarrow> Options" where
  "deepMerge dst src =
     \<lparr>Pretty = merge_field (\<lambda>b. \<not> b) (Pretty dst) (Pretty src),
      Fields = merge_field (\<lambda>xs. length xs = 0) (Fields dst) (Fields src),
      Limit = merge_field (\<lambda>n. n = 0) (Limit dst) (Limit src),
      Offset = merge_field (\<lambda>s. length s = 0) (Offset dst) (Offset src)\<rparr>"

definition mergo_Merge :: "Options \<Rightarrow> Options \<Rightarrow> error + Options" where
  "mergo_Merge dst src = Inr (deepMerge dst src)"

text \<open>The merge writes through the pointer \<open>dst\<close>: it returns the merged object and
  the store it leaves.\<close>

definition Merge_into ::
  "Options_ptr \<Rightarrow> Options \<Rightarrow> (addr \<Rightarrow> Options) \<Rightarrow> error + Options \<times> (addr \<Rightarrow> Options)" where
  "Merge_into dst src st =
     (case dst of
        Nil \<Rightarrow> Inl (Failure ''only structs, maps, and slices are supported'')
      | Ref a \<Rightarrow>
          (case mergo_Merge (st a) src of
             Inl err \<Rightarrow> Inl err
           | Inr m \<Rightarrow> Inr (m, st(a := m)))
      | Tmp v \<Rightarrow>
          (case mergo_Merge v src of
             Inl err \<Rightarrow> Inl err
           | Inr m \<Rightarrow> Inr (m, st)))"

subsection \<open>Write calls\<close>

text \<open>\<^verbatim>\<open>if opts != nil { options = opts[0] }\<close>: indexing an empty slice panics.\<close>

definition first_Options :: "Options_ptr list option \<Rightarrow> Options_ptr may_panic" where
  "first_Options opts =
     (case opts of
        None \<Rightarrow> Returns Nil
      | Some [] \<Rightarrow> Panics ''runtime error: index out of range [0] with length 0''
      | Some (p # _) \<Rightarrow> Returns p)"

text \<open>\<^verbatim>\<open>json.Marshal(req)\<close> for \<^verbatim>\<open>req = &request{Data: data, Options: options}\<close>.\<close>

definition Marshal_request :: "payload option \<Rightarrow> Options \<Rightarrow> error + http_body" where
  "Marshal_request data options =
     (case data of
        None \<Rightarrow> Inr (JSON_request JNull options)
      | Some d \<Rightarrow>
          (case json_Marshal d of
             Inl err \<Rightarrow> Inl err
           | Inr j \<Rightarrow> Inr (JSON_request j options)))"

definition do ::
  "'s Client \<Rightarrow> 'd lib \<Rightarrow> string \<Rightarrow> string \<Rightarrow> payload option \<Rightarrow> 'd \<Rightarrow> Options_ptr list option
     \<Rightarrow> 's world \<Rightarrow> unit result \<times> 'd \<times> 's world" where
  "do c lib method path data result opts w =
     (case first_Options opts of
        Panics p \<Rightarrow> (Panic p, result, w)
      | Returns options \<Rightarrow>
          (case Merge_into (if options = Nil then Tmp Options_zero else options)
                  (DefaultOptions c) (store w) of
             Inl err \<Rightarrow> (Err (Wrap err ''unable to merge options''), result, w)
           | Inr (merged, st') \<Rightarrow>
               (case (case data of None \<Rightarrow> None | Some d \<Rightarrow> run_Validator d) of
                  Some err \<Rightarrow> (Err err, result, w\<lparr>store := st'\<rparr>)
                | None \<Rightarrow>
                    (case Marshal_request data merged of
                       Inl err \<Rightarrow> (Err err, result, w\<lparr>store := st'\<rparr>)
                     | Inr body \<Rightarrow>
                         (case getURL c path of
                            Panics p \<Rightarrow> (Panic p, result, w\<lparr>store := st'\<rparr>)
                          | Returns url \<Rightarrow>
                              (case http_NewRequest lib method url body of
                                 Inl err \<Rightarrow>
                                   (Err (Wrap err ''Request error''), result, w\<lparr>store := st'\<rparr>)
                               | Inr request \<Rightarrow>
                                   (case HTTPClient_Do c
                                           (if FastAPI c
                                            then Header_Add
                                                   (Header_Add request ''Content-Type''
                                                      ''application/json'')
                                                   ''Asana-Fast-Api'' ''true''
                                            else Header_Add request ''Content-Type''
                                                   ''application/json'')
                                           (w\<lparr>store := st'\<rparr>) of
                                      (Inl err, w') \<Rightarrow>
                                        (Err (Wrap err (method @ '' error'')), result, w')
                                    | (Inr resp, w') \<Rightarrow>
                                        (case parseResponse lib resp result of
                                           (Ok _, result') \<Rightarrow> (Ok (), result', w')
                                         | (Err err, result') \<Rightarrow> (Err err, result', w')
                                         | (Panic p, result') \<Rightarrow> (Panic p, result', w')))))))))"

definition post ::
  "'s Client \<Rightarrow> 'd lib \<Rightarrow> string \<Rightarrow> payload option \<Rightarrow> 'd \<Rightarrow> Options_ptr list option
     \<Rightarrow> 's world \<Rightarrow> unit result \<times> 'd \<times> 's world" where
  "post c lib path data result opts w = do c lib ''POST'' path data result opts w"

definition put ::
  "'s Client \<Rightarrow> 'd lib \<Rightarrow> string \<Rightarrow> payload option \<Rightarrow> 'd \<Rightarrow> Options_ptr list option
     \<Rightarrow> 's world \<Rightarrow> unit result \<times> 'd \<times> 's world" where
  "put c lib path data result opts w = do c lib ''PUT'' path data result opts w"

subsection \<open>Multipart upload\<close>

text \<open>The upload stream \<^verbatim>\<open>r io.ReadCloser\<close>: the bytes it yields and the number of
  times \<^verbatim>\<open>Close\<close> has been called on it.\<close>

record ReadCloser =
  contents :: string
  Close_calls :: nat

definition CRLF :: string where
  "CRLF = [CHR 0x0D, CHR 0x0A]"

text \<open>\<^verbatim>\<open>quoteEscaper.Replace\<close>: a backslash becomes two, a double quote gets one.\<close>

definition escapeQuotes :: "string \<Rightarrow> string" where
  "escapeQuotes s =
     concat (map (\<lambda>ch. if ch = CHR 0x5C then [CHR 0x5C, CHR 0x5C]
                        else if ch = CHR 0x22 then [CHR 0x5C, CHR 0x22]
                        else [ch]) s)"

text \<open>
  \<^verbatim>\<open>multipart.Writer\<close> on a \<^verbatim>\<open>bytes.Buffer\<close>: what \<^verbatim>\<open>CreatePart\<close> writes for the first
  part (the header lines come in the order of their keys) and what \<^verbatim>\<open>Close\<close> writes.
  Writing to the buffer does not fail.
\<close>

definition Writer_CreatePart :: "string \<Rightarrow> (string \<times> string) list \<Rightarrow> error + string" where
  "Writer_CreatePart boundary h =
     Inr (''--'' @ boundary @ CRLF @
          concat (map (\<lambda>kv. fst kv @ '': '' @ snd kv @ CRLF) h) @ CRLF)"

definition Writer_Close :: "string \<Rightarrow> error + string" where
  "Writer_Close boundary = Inr (CRLF @ ''--'' @ boundary @ ''--'' @ CRLF)"

definition FormDataContentType :: "string \<Rightarrow> string" where
  "FormDataContentType boundary = ''multipart/form-data; boundary='' @ boundary"

definition Content_Disposition :: "string \<Rightarrow> string \<Rightarrow> string" where
  "Content_Disposition field filename =
     ''form-data; name='' @ [CHR 0x22] @ escapeQuotes field @ [CHR 0x22] @
     ''; filename='' @ [CHR 0x22] @ escapeQuotes filename @ [CHR 0x22]"

text \<open>
  \<^verbatim>\<open>postMultipart\<close>. The outer case is \<^verbatim>\<open>defer r.Close()\<close>: whatever way the body
  leaves, by a return or by the panic of \<^verbatim>\<open>getURL\<close>, the stream is closed then. The
  request body is what the \<^verbatim>\<open>io.MultiReader\<close> yields.
\<close>

definition postMultipart ::
  "'s Client \<Rightarrow> 'd lib \<Rightarrow> string \<Rightarrow> 'd \<Rightarrow> string \<Rightarrow> ReadCloser \<Rightarrow> string \<Rightarrow> string \<Rightarrow> 's world
     \<Rightarrow> unit result \<times> 'd \<times> ReadCloser \<times> 's world" where
  "postMultipart c lib path result field r filename contentType w =
     (case
        (case Writer_CreatePart (RandomBoundary lib)
                [(''Content-Disposition'', Content_Disposition field filename),
                 (''Content-Type'', contentType)] of
           Inl err \<Rightarrow> (Err (Wrap err ''create multipart header''), result, w)
         | Inr header \<Rightarrow>
             (case Writer_Close (RandomBoundary lib) of
                Inl err \<Rightarrow> (Err (Wrap err ''create multipart footer''), result, w)
              | Inr footer \<Rightarrow>
                  (case getURL c path of
                     Panics p \<Rightarrow> (Panic p, result, w)
                   | Returns url \<Rightarrow>
                       (case http_NewRequest lib ''POST'' url
                               (Bytes (take (length header) (header @ footer) @ contents r @
                                       drop (length header) (header @ footer))) of
                          Inl err \<Rightarrow> (Err (Wrap err ''Request error''), result, w)
                        | Inr request \<Rightarrow>
                            (case HTTPClient_Do c
                                    (if FastAPI c
                                     then Header_Add
                                            (Header_Add request ''Content-Type''
                                               (FormDataContentType (RandomBoundary lib)))
                                            ''Asana-Fast-Api'' ''true''
                                     else Header_Add request ''Content-Type''
                                            (FormDataContentType (RandomBoundary lib)))
                                    w of
                               (Inl err, w') \<Rightarrow> (Err (Wrap err ''POST error''), result, w')
                             | (Inr resp, w') \<Rightarrow>
                                 (case parseResponse lib resp result of
                                    (Ok _, result') \<Rightarrow> (Ok (), result', w')
                                  | (Err err, result') \<Rightarrow> (Err err, result', w')
                                  | (Panic p, result') \<Rightarrow> (Panic p, result', w'))))))) of
        (res, result', w') \<Rightarrow> (res, result', r\<lparr>Close_calls := Suc (Close_calls r)\<rparr>, w'))"

subsection \<open>Listing helpers\<close>

text \<open>
  \<^verbatim>\<open>Workspace.Projects\<close>, for the workspace with the given ID: the destination is a
  new nil slice, returned with what \<^verbatim>\<open>get\<close> returns.
\<close>

definition Projects ::
  "'s Client \<Rightarrow> 'p list lib \<Rightarrow> string \<Rightarrow> Options_ptr list option \<Rightarrow> 's world
     \<Rightarrow> ('p list \<times> NextPage option result) \<times> 's world" where
  "Projects c lib ID options w =
     (case get c lib (''/workspaces/'' @ ID @ ''/projects'') None [] options w of
        (r, result, w') \<Rightarrow> ((result, r), w'))"

text \<open>
  The loop of \<^verbatim>\<open>Workspace.AllProjects\<close>. It runs for as long as the service returns a
  cursor, so a result is \<open>Some\<close> and a loop that never ends is \<open>None\<close>.
\<close>

text \<open>\<^verbatim>\<open>page := &Options{Limit: 100, Offset: nextPage.Offset}\<close>.\<close>

definition AllProjects_page :: "NextPage \<Rightarrow> Options_ptr" where
  "AllProjects_page nextPage =
     Tmp \<lparr>Pretty = False, Fields = [], Limit = 100, Offset = np_Offset nextPage\<rparr>"

partial_function (option) AllProjects_loop ::
  "'s Client \<Rightarrow> 'p list lib \<Rightarrow> string \<Rightarrow> Options_ptr list option \<Rightarrow> NextPage option \<Rightarrow> 'p list
     \<Rightarrow> 's world \<Rightarrow> ('p list result \<times> 's world) option" where
  "AllProjects_loop c lib ID options nextPage allProjects w =
     (case nextPage of
        None \<Rightarrow> Some (Ok allProjects, w)
      | Some np \<Rightarrow>
          (case Projects c lib ID (Some (AllProjects_page np # range_slice options)) w of
             ((projects, Err err), w') \<Rightarrow> Some (Err err, w')
           | ((projects, Panic p), w') \<Rightarrow> Some (Panic p, w')
           | ((projects, Ok nextPage'), w') \<Rightarrow>
               AllProjects_loop c lib ID options nextPage' (allProjects @ projects) w'))"

definition AllProjects ::
  "'s Client \<Rightarrow> 'p list lib \<Rightarrow> string \<Rightarrow> Options_ptr list option \<Rightarrow> 's world
     \<Rightarrow> ('p list result \<times> 's world) option" where
  "AllProjects c lib ID options w =
     AllProjects_loop c lib ID options (Some NextPage_zero) [] w"

text \<open>\<^verbatim>\<open>Project.CreateSection\<close>, for the project with the given ID; \<open>result\<close> is the
  new \<^verbatim>\<open>Section\<close> the source allocates.\<close>

definition CreateSection ::
  "'s Client \<Rightarrow> 'd lib \<Rightarrow> string \<Rightarrow> payload \<Rightarrow> 'd \<Rightarrow> 's world \<Rightarrow> unit result \<times> 'd \<times> 's world" where
  "CreateSection c lib ID section result w =
     post c lib (''projects/'' @ ID @ ''/sections'') (Some section) result None w"

subsection \<open>The merge rule in the words of the specification\<close>

text \<open>
  The rule the specification gives for two sources of query parameters: a key that
  the later source produces has the later source's values and none of the earlier ones
  (no values at all when the later source produces the key with an empty list); a key
  the later source does not produce keeps the values of the earlier source.
\<close>

definition override :: "(string \<rightharpoonup> string list) \<Rightarrow> url_Values \<Rightarrow> (string \<rightharpoonup> string list)" where
  "override earlier later =
     (\<lambda>key. case map_of later key of
              None \<Rightarrow> earlier key
            | Some vals \<Rightarrow> if vals = [] then None else Some vals)"

text \<open>The sources a read call applies after the client's defaults: the domain request
  value, if there is one, then each of the options, in the order given.\<close>

definition query_sources ::
  "'d lib \<Rightarrow> (addr \<Rightarrow> Options) \<Rightarrow> payload option \<Rightarrow> Options_ptr list option
     \<Rightarrow> (error + url_Values) list" where
  "query_sources lib st data opts =
     (case data of None \<Rightarrow> [] | Some d \<Rightarrow> [query_Values d]) @
     map (query_Values_ptr lib st) (range_slice opts)"

subsection \<open>Concrete instances\<close>

text \<open>
  A small library instance, a scripted network and two destinations, on which the
  definitions above can be run: the query encoder writes \<^verbatim>\<open>opt_pretty\<close>,
  \<^verbatim>\<open>opt_fields\<close>, \<^verbatim>\<open>limit\<close> and \<^verbatim>\<open>offset\<close> for the fields of an \<^verbatim>\<open>Options\<close> that are
  not empty; the network answers the requests it receives with the responses of a script,
  one after the other.
\<close>

fun itoa_nat :: "nat \<Rightarrow> string" where
  "itoa_nat n =
     (if n < 10 then [''0123456789'' ! n]
      else itoa_nat (n div 10) @ [''0123456789'' ! (n mod 10)])"

declare itoa_nat.simps [simp del]

definition itoa :: "int \<Rightarrow> string" where
  "itoa i = (if i < 0 then ''-'' @ itoa_nat (nat (- i)) else itoa_nat (nat i))"

fun join :: "string \<Rightarrow> string list \<Rightarrow> string" where
  "join sep [] = []"
| "join sep [x] = x"
| "join sep (x # y # ys) = x @ sep @ join sep (y # ys)"

definition ex_query_Values :: "Options \<Rightarrow> error + url_Values" where
  "ex_query_Values opt =
     Inr ((if Pretty opt then [(''opt_pretty'', [''true''])] else []) @
          (if Fields opt \<noteq> [] then [(''opt_fields'', [join '','' (Fields opt)])] else []) @
          (if Limit opt \<noteq> 0 then [(''limit'', [itoa (Limit opt)])] else []) @
          (if Offset opt \<noteq> [] then [(''offset'', [Offset opt])] else []))"

definition ex_Encode :: "url_Values \<Rightarrow> string" where
  "ex_Encode q = join ''&'' (concat (map (\<lambda>kv. map (\<lambda>v. fst kv @ ''='' @ v) (snd kv)) q))"

text \<open>\<^verbatim>\<open>json.Unmarshal\<close> into a struct with one field, \<^verbatim>\<open>gid\<close>, a string, and into a
  slice of such structs.\<close>

definition Unmarshal_gid_field :: "string \<times> json \<Rightarrow> string \<times> error option \<Rightarrow> string \<times> error option" where
  "Unmarshal_gid_field kv acc =
     (if key_is ''gid'' (fst kv) then
        (case Unmarshal_string ''gid'' (snd kv) (fst acc) of
           (s, e) \<Rightarrow> (s, first_error (snd acc) e))
      else acc)"

definition Unmarshal_gid :: "json \<Rightarrow> string \<Rightarrow> string \<times> error option" where
  "Unmarshal_gid j cur =
     (case j of
        JNull \<Rightarrow> (cur, None)
      | JObject fs \<Rightarrow> fold Unmarshal_gid_field fs (cur, None)
      | _ \<Rightarrow> (cur, Some (type_error ''gid struct'')))"

definition Unmarshal_gids :: "json \<Rightarrow> string list \<Rightarrow> string list \<times> error option" where
  "Unmarshal_gids j cur =
     (case j of
        JNull \<Rightarrow> ([], None)
      | JArray js \<Rightarrow>
          (map (\<lambda>x. fst (Unmarshal_gid x [])) js,
           fold (\<lambda>x saved. first_error saved (snd (Unmarshal_gid x []))) js None)
      | _ \<Rightarrow> (cur, Some (type_error ''gid slice'')))"

definition ex_lib :: "(json \<Rightarrow> 'd \<Rightarrow> 'd \<times> error option) \<Rightarrow> 'd lib" where
  "ex_lib dec =
     \<lparr>query_Values_Options = ex_query_Values,
      Values_Encode = ex_Encode,
      http_NewRequest_error = (\<lambda>method url. None),
      json_Unmarshal = dec,
      RandomBoundary = ''b0undary''\<rparr>"

definition scripted ::
  "http_request \<Rightarrow> (error + http_response) list \<Rightarrow> (error + http_response) \<times> (error + http_response) list" where
  "scripted request script =
     (case script of
        [] \<Rightarrow> (Inl (Failure ''EOF''), [])
      | r # rs \<Rightarrow> (r, rs))"

definition ex_client :: "Options \<Rightarrow> (error + http_response) list Client" where
  "ex_client defaults =
     \<lparr>BaseURL = ''https://app.asana.com/api/1.0'',
      HTTPClient = scripted,
      Debug = False,
      Verbose = [],
      FastAPI = True,
      DefaultOptions = defaults\<rparr>"

definition ex_world ::
  "Options \<Rightarrow> (error + http_response) list \<Rightarrow> (error + http_response) list world" where
  "ex_world opt script = \<lparr>store = (\<lambda>a. opt), sent = [], net = script\<rparr>"

text \<open>A page of a listing: the items' gids and the offset of the next page, if any;
  and the request that fetches the page at a given query string.\<close>

definition ex_page :: "string list \<Rightarrow> string option \<Rightarrow> error + http_response" where
  "ex_page gids next =
     Inr \<lparr>StatusCode = 200,
          RespBody = JSON (JObject
            [(''data'', JArray (map (\<lambda>g. JObject [(''gid'', JString g)]) gids)),
             (''next_page'',
                case next of
                  None \<Rightarrow> JNull
                | Some off \<Rightarrow> JObject [(''offset'', JString off)])])\<rparr>"

definition ex_listing :: "string \<Rightarrow> http_request" where
  "ex_listing query =
     \<lparr>Method = ''GET'',
      URL = ''https://app.asana.com/api/1.0/workspaces/7/projects?'' @ query,
      Header = [(''Asana-Fast-Api'', ''true'')],
      Body = NoBody\<rparr>"

definition ex_invalid :: payload where
  "ex_invalid =
     \<lparr>Validate = Some (Some (Failure ''name is required'')),
      query_Values = Inr [],
      json_Marshal = Inr (JObject [])\<rparr>"


section \<open>Properties\<close>

subsection \<open>Merging options\<close>

lemma deepMerge_fields:
  "(Pretty B \<longrightarrow> Pretty (deepMerge B A) = Pretty B) \<and>
   (\<not> Pretty B \<longrightarrow> Pretty (deepMerge B A) = Pretty A) \<and>
   (Fields B \<noteq> [] \<longrightarrow> Fields (deepMerge B A) = Fields B) \<and>
   (Fields B = [] \<longrightarrow> Fields (deepMerge B A) = Fields A) \<and>
   (Limit B \<noteq> 0 \<longrightarrow> Limit (deepMerge B A) = Limit B) \<and>
   (Limit B = 0 \<longrightarrow> Limit (deepMerge B A) = Limit A) \<and>
   (Offset B \<noteq> [] \<longrightarrow> Offset (deepMerge B A) = Offset B) \<and>
   (Offset B = [] \<longrightarrow> Offset (deepMerge B A) = Offset A)"
  by (simp add: deepMerge_def merge_field_def)

lemma Merge_into_Ref:
  "Merge_into (Ref a) src st = Inr (deepMerge (st a) src, st(a := deepMerge (st a) src))"
  by (simp add: Merge_into_def mergo_Merge_def)

lemma Merge_into_Tmp:
  "Merge_into (Tmp v) src st = Inr (deepMerge v src, st)"
  by (simp add: Merge_into_def mergo_Merge_def)

text \<open>The object \<^verbatim>\<open>do\<close> merges into, and the store the merge leaves.\<close>

lemma Merge_into_first:
  "\<exists>m. Merge_into (if p = Nil then Tmp Options_zero else p) src st =
         Inr (m, case p of Ref a \<Rightarrow> st(a := deepMerge (st a) src) | _ \<Rightarrow> st)"
  by (cases p) (simp_all add: Merge_into_Ref Merge_into_Tmp)

subsection \<open>The ways a write call ends\<close>

lemma do_no_Options:
  "do c lib method path data result (Some []) w =
     (Panic ''runtime error: index out of range [0] with length 0'', result, w)"
  by (simp add: do_def first_Options_def)

lemma first_Options_Returns:
  "opts \<noteq> Some [] \<Longrightarrow> \<exists>p. first_Options opts = Returns p"
  by (auto simp: first_Options_def split: option.splits list.splits)

lemma do_exit_store:
  assumes "first_Options opts = Returns p"
      and "Merge_into (if p = Nil then Tmp Options_zero else p) (DefaultOptions c) (store w) = Inr (m, st)"
      and "do c lib method path data result opts w = (r, result', w')"
  shows "store w' = st"
  using assms(3)
  apply (simp add: do_def assms(1) assms(2) HTTPClient_Do_def case_prod_beta
      split: option.splits sum.splits may_panic.splits result.splits)
  apply auto
  done

lemma do_exit_sent:
  assumes "first_Options opts = Returns p"
      and "Merge_into (if p = Nil then Tmp Options_zero else p) (DefaultOptions c) (store w) = Inr (m, st)"
      and "do c lib method path data result opts w = (r, result', w')"
  shows "(sent w' = sent w \<and> net w' = net w \<and> result' = result \<and> r \<noteq> Ok ()) \<or>
         (\<exists>j url hdr. sent w' = sent w @ [\<lparr>Method = method, URL = url, Header = hdr, Body = JSON_request j m\<rparr>])"
  using assms(3)
  apply (cases "FastAPI c")
  apply (simp_all add: do_def assms(1) assms(2) Marshal_request_def http_NewRequest_def HTTPClient_Do_def Header_Add_def case_prod_beta
      split: option.splits sum.splits may_panic.splits result.splits)
  apply auto
  done

lemma do_invalid:
  assumes "run_Validator d = Some err"
      and "first_Options opts = Returns p"
      and "Merge_into (if p = Nil then Tmp Options_zero else p) (DefaultOptions c) (store w) = Inr (m, st)"
  shows "do c lib method path (Some d) result opts w = (Err err, result, w\<lparr>store := st\<rparr>)"
  by (simp add: do_def assms)

lemma do_bad_path:
  assumes "getURL c path = Panics msg"
      and "first_Options opts = Returns p"
      and "Merge_into (if p = Nil then Tmp Options_zero else p) (DefaultOptions c) (store w) = Inr (m, st)"
      and "\<forall>d. data = Some d \<longrightarrow> run_Validator d = None \<and> (\<exists>j. json_Marshal d = Inr j)"
  shows "do c lib method path data result opts w = (Panic msg, result, w\<lparr>store := st\<rparr>)"
  using assms(4)
  by (cases data) (auto simp: do_def assms(1,2,3) Marshal_request_def)

subsection \<open>The ways a read call ends\<close>

lemma get_store:
  assumes "get c lib path data result opts w = (r, result', w')"
  shows "store w' = store w"
  using assms
  apply (simp add: get_def HTTPClient_Do_def case_prod_beta
      split: option.splits sum.splits may_panic.splits result.splits)
  apply auto
  done

lemma get_invalid:
  assumes "run_Validator d = Some err"
      and "query_Values_Options lib (DefaultOptions c) = Inr qd"
  shows "get c lib path (Some d) result opts w = (Err err, result, w)"
  using assms by (simp add: get_def get_query_def)

lemma getURL_bad:
  "path = [] \<or> hd path \<noteq> CHR ''/'' \<Longrightarrow>
     getURL c path = Panics (if path = [] then ''runtime error: index out of range [0] with length 0''
                             else ''Invalid API path'')"
  by (cases path) (simp_all add: getURL_def)

lemma getURL_good:
  "path \<noteq> [] \<Longrightarrow> hd path = CHR ''/'' \<Longrightarrow> getURL c path = Returns (BaseURL c @ path)"
  by (cases path) (simp_all add: getURL_def)

lemma get_bad_path:
  assumes "path = [] \<or> hd path \<noteq> CHR ''/''"
      and "get_query c lib data opts (store w) = Inr q"
  shows "\<exists>msg. get c lib path data result opts w = (Panic msg, result, w)"
proof (cases "q = []")
  case True
  with assms show ?thesis by (simp add: get_def getURL_bad)
next
  case False
  from assms(1) have "path @ ''?'' @ Values_Encode lib q = [] \<or> hd (path @ ''?'' @ Values_Encode lib q) \<noteq> CHR ''/''"
    by (cases path) simp_all
  from getURL_bad [OF this, of c] False assms(2) show ?thesis by (simp add: get_def)
qed

lemma postMultipart_bad_path:
  assumes "getURL c path = Panics msg"
  shows "postMultipart c lib path result field r filename contentType w =
           (Panic msg, result, r\<lparr>Close_calls := Suc (Close_calls r)\<rparr>, w)"
  by (simp add: postMultipart_def assms Writer_CreatePart_def Writer_Close_def)

subsection \<open>Running the definitions\<close>

lemmas transport_defs =
  getURL_def HTTPClient_Do_def toUpper_def key_is_def type_error_def first_error_def
  Unmarshal_string_def
  Unmarshal_NextPage_field_def Unmarshal_NextPage_def Unmarshal_Error_field_def
  Unmarshal_Error_def Unmarshal_Errors_def Unmarshal_Response_field_def Unmarshal_Response_def
  Response_Error_def parseResponseData_def parseResponse_def Values_Del_def
  mergeQuery_def query_Values_ptr_def run_Validator_def get_query_def http_NewRequest_def
  Header_Add_def get_def merge_field_def deepMerge_def mergo_Merge_def Merge_into_def
  first_Options_def Marshal_request_def do_def post_def put_def CRLF_def escapeQuotes_def
  Writer_CreatePart_def Writer_Close_def FormDataContentType_def Content_Disposition_def
  postMultipart_def Projects_def AllProjects_page_def CreateSection_def Options_zero_def
  NextPage_zero_def
  Response_zero_def

lemmas instance_defs =
  itoa_def ex_query_Values_def ex_Encode_def Unmarshal_gid_field_def Unmarshal_gid_def
  Unmarshal_gids_def ex_lib_def scripted_def ex_client_def ex_world_def ex_invalid_def
  ex_page_def ex_listing_def

lemma post_created:
  "do (ex_client \<lparr>Pretty = False, Fields = [''name''], Limit = 50, Offset = []\<rparr>)
      (ex_lib Unmarshal_gid) ''POST'' ''/tasks'' None ''0'' (Some [Ref 0])
      (ex_world \<lparr>Pretty = False, Fields = [], Limit = 10, Offset = ''abc''\<rparr>
         [Inr \<lparr>StatusCode = 201,
               RespBody = JSON (JObject [(''data'', JObject [(''gid'', JString ''7'')])])\<rparr>])
   = (Ok (), ''7'',
      \<lparr>store = (\<lambda>a. \<lparr>Pretty = False, Fields = [], Limit = 10, Offset = ''abc''\<rparr>)
                 (0 := \<lparr>Pretty = False, Fields = [''name''], Limit = 10, Offset = ''abc''\<rparr>),
       sent = [\<lparr>Method = ''POST'', URL = ''https://app.asana.com/api/1.0/tasks'',
                Header = [(''Content-Type'', ''application/json''), (''Asana-Fast-Api'', ''true'')],
                Body = JSON_request JNull
                         \<lparr>Pretty = False, Fields = [''name''], Limit = 10, Offset = ''abc''\<rparr>\<rparr>],
       net = []\<rparr>)"
  by (simp add: transport_defs instance_defs)

subsection \<open>Merging the caller's options over the defaults\<close>

text \<open>A write call whose payload validates and marshals, on a path that begins with
  \<^verbatim>\<open>/\<close> and a URL that the library accepts, issues one request: its body is the
  marshalled payload with the merge of the first \<^verbatim>\<open>Options\<close> over the defaults.\<close>

lemma do_sends_merged:
  assumes "\<forall>d. data = Some d \<longrightarrow> run_Validator d = None"
      and "Marshal_request data (deepMerge (store w b) (DefaultOptions c)) = Inr body"
      and "path \<noteq> []" and "hd path = CHR ''/''"
      and "http_NewRequest_error lib method (BaseURL c @ path) = None"
  shows "sent (snd (snd (do c lib method path data result (Some (Ref b # rest)) w))) =
           sent w @
           [\<lparr>Method = method, URL = BaseURL c @ path,
             Header = (''Content-Type'', ''application/json'') #
                      (if FastAPI c then [(''Asana-Fast-Api'', ''true'')] else []),
             Body = body\<rparr>]"
proof -
  have v: "(case data of None \<Rightarrow> None | Some d \<Rightarrow> run_Validator d) = None"
    using assms(1) by (cases data) simp_all
  have u: "getURL c path = Returns (BaseURL c @ path)"
    by (rule getURL_good [OF assms(3,4)])
  show ?thesis
    by (cases "FastAPI c")
       (simp_all add: do_def first_Options_def Merge_into_Ref v assms(2) u http_NewRequest_def
          assms(5) HTTPClient_Do_def Header_Add_def case_prod_beta
          split: sum.split result.split)
qed

lemma Marshal_request_body:
  "Marshal_request data M = Inr body \<Longrightarrow> \<exists>j. body = JSON_request j M"
  by (auto simp: Marshal_request_def split: option.splits sum.splits)

text \<open>
  C1. Let a write call be given the caller's \<^verbatim>\<open>Options\<close> \<open>B\<close> (the object at \<open>b\<close>) first, let
  \<open>A\<close> be the client's defaults and \<open>M\<close> the merge of \<open>B\<close> over \<open>A\<close> that the call makes.
  In \<open>M\<close> every field that is set in \<open>B\<close> (not the empty value of its type) has \<open>B\<close>'s
  value and every field that is not set in \<open>B\<close> has \<open>A\<close>'s. When the payload validates
  and marshals, the path begins with \<^verbatim>\<open>/\<close> and the request can be made, the call issues
  one request, whose body carries \<open>M\<close>; and any request a write call issues carries \<open>M\<close>.
\<close>

theorem do_merges_options:
  assumes "opts = Some (Ref b # rest)"
      and "M = deepMerge (store w b) (DefaultOptions c)"
  shows "((\<forall>d. data = Some d \<longrightarrow> run_Validator d = None) \<and>
          Marshal_request data M = Inr body \<and>
          path \<noteq> [] \<and> hd path = CHR ''/'' \<and>
          http_NewRequest_error lib method (BaseURL c @ path) = None \<longrightarrow>
            sent (snd (snd (do c lib method path data result opts w))) =
              sent w @
              [\<lparr>Method = method, URL = BaseURL c @ path,
                Header = (''Content-Type'', ''application/json'') #
                         (if FastAPI c then [(''Asana-Fast-Api'', ''true'')] else []),
                Body = body\<rparr>] \<and>
            (\<exists>j. body = JSON_request j M)) \<and>
         (do c lib method path data result opts w = (r, result', w') \<and>
          sent w' = sent w @ [request] \<longrightarrow>
            (\<exists>j. Body request = JSON_request j M)) \<and>
         (Pretty (store w b) \<longrightarrow> Pretty M = Pretty (store w b)) \<and>
         (\<not> Pretty (store w b) \<longrightarrow> Pretty M = Pretty (DefaultOptions c)) \<and>
         (Fields (store w b) \<noteq> [] \<longrightarrow> Fields M = Fields (store w b)) \<and>
         (Fields (store w b) = [] \<longrightarrow> Fields M = Fields (DefaultOptions c)) \<and>
         (Limit (store w b) \<noteq> 0 \<longrightarrow> Limit M = Limit (store w b)) \<and>
         (Limit (store w b) = 0 \<longrightarrow> Limit M = Limit (DefaultOptions c)) \<and>
         (Offset (store w b) \<noteq> [] \<longrightarrow> Offset M = Offset (store w b)) \<and>
         (Offset (store w b) = [] \<longrightarrow> Offset M = Offset (DefaultOptions c))"
proof -
  have issued: "(\<forall>d. data = Some d \<longrightarrow> run_Validator d = None) \<and>
          Marshal_request data M = Inr body \<and>
          path \<noteq> [] \<and> hd path = CHR ''/'' \<and>
          http_NewRequest_error lib method (BaseURL c @ path) = None \<longrightarrow>
            sent (snd (snd (do c lib method path data result opts w))) =
              sent w @
              [\<lparr>Method = method, URL = BaseURL c @ path,
                Header = (''Content-Type'', ''application/json'') #
                         (if FastAPI c then [(''Asana-Fast-Api'', ''true'')] else []),
                Body = body\<rparr>] \<and>
            (\<exists>j. body = JSON_request j M)"
  proof
    assume a: "(\<forall>d. data = Some d \<longrightarrow> run_Validator d = None) \<and>
          Marshal_request data M = Inr body \<and>
          path \<noteq> [] \<and> hd path = CHR ''/'' \<and>
          http_NewRequest_error lib method (BaseURL c @ path) = None"
    then have v: "\<forall>d. data = Some d \<longrightarrow> run_Validator d = None"
      and m: "Marshal_request data (deepMerge (store w b) (DefaultOptions c)) = Inr body"
      and p: "path \<noteq> []" "hd path = CHR ''/''"
      and n: "http_NewRequest_error lib method (BaseURL c @ path) = None"
      by (simp_all add: assms(2))
    from do_sends_merged [OF v m p n] Marshal_request_body [OF m]
    show "sent (snd (snd (do c lib method path data result opts w))) =
              sent w @
              [\<lparr>Method = method, URL = BaseURL c @ path,
                Header = (''Content-Type'', ''application/json'') #
                         (if FastAPI c then [(''Asana-Fast-Api'', ''true'')] else []),
                Body = body\<rparr>] \<and>
            (\<exists>j. body = JSON_request j M)"
      by (simp add: assms)
  qed
  have any: "do c lib method path data result opts w = (r, result', w') \<and>
          sent w' = sent w @ [request] \<longrightarrow>
            (\<exists>j. Body request = JSON_request j M)"
  proof
    assume a: "do c lib method path data result opts w = (r, result', w') \<and>
          sent w' = sent w @ [request]"
    have f: "first_Options opts = Returns (Ref b)"
      by (simp add: assms(1) first_Options_def)
    have m: "Merge_into (if Ref b = Nil then Tmp Options_zero else Ref b) (DefaultOptions c) (store w) =
               Inr (M, (store w)(b := M))"
      by (simp add: Merge_into_Ref assms(2))
    from a have run: "do c lib method path data result opts w = (r, result', w')"
      and s: "sent w' = sent w @ [request]"
      by simp_all
    from do_exit_sent [OF f m run] s show "\<exists>j. Body request = JSON_request j M"
      by auto
  qed
  from issued any deepMerge_fields [of "store w b" "DefaultOptions c"] show ?thesis
    unfolding assms(2) by blast
qed

theorem do_merges_options_witness:
  "sent (snd (snd
     (do (ex_client \<lparr>Pretty = False, Fields = [''name''], Limit = 50, Offset = []\<rparr>)
        (ex_lib Unmarshal_gid) ''POST'' ''/tasks'' None ''0'' (Some [Ref 0])
        (ex_world \<lparr>Pretty = False, Fields = [], Limit = 10, Offset = ''abc''\<rparr>
           [Inr \<lparr>StatusCode = 201,
                 RespBody = JSON (JObject [(''data'', JObject [(''gid'', JString ''7'')])])\<rparr>])))) =
   [\<lparr>Method = ''POST'', URL = ''https://app.asana.com/api/1.0/tasks'',
     Header = [(''Content-Type'', ''application/json''), (''Asana-Fast-Api'', ''true'')],
     Body = JSON_request JNull
              \<lparr>Pretty = False, Fields = [''name''], Limit = 10, Offset = ''abc''\<rparr>\<rparr>] \<and>
   deepMerge \<lparr>Pretty = False, Fields = [], Limit = 10, Offset = ''abc''\<rparr>
     \<lparr>Pretty = False, Fields = [''name''], Limit = 50, Offset = []\<rparr> =
   \<lparr>Pretty = False, Fields = [''name''], Limit = 10, Offset = ''abc''\<rparr>"
proof -
  let ?c = "ex_client \<lparr>Pretty = False, Fields = [''name''], Limit = 50, Offset = []\<rparr>"
  let ?w = "ex_world \<lparr>Pretty = False, Fields = [], Limit = 10, Offset = ''abc''\<rparr>
           [Inr \<lparr>StatusCode = 201,
                 RespBody = JSON (JObject [(''data'', JObject [(''gid'', JString ''7'')])])\<rparr>]"
  let ?M = "deepMerge (store ?w 0) (DefaultOptions ?c)"
  have M: "?M = \<lparr>Pretty = False, Fields = [''name''], Limit = 10, Offset = ''abc''\<rparr>"
    by (simp add: deepMerge_def merge_field_def ex_world_def ex_client_def)
  have pre: "(\<forall>d. None = Some d \<longrightarrow> run_Validator d = None) \<and>
          Marshal_request None ?M = Inr (JSON_request JNull ?M) \<and>
          ''/tasks'' \<noteq> [] \<and> hd ''/tasks'' = CHR ''/'' \<and>
          http_NewRequest_error (ex_lib Unmarshal_gid) ''POST'' (BaseURL ?c @ ''/tasks'') = None"
    by (simp add: Marshal_request_def ex_lib_def)
  from do_merges_options [where rest = "[]" and result = "''0''", OF refl refl,
      THEN conjunct1, THEN mp, OF pre] M
  show ?thesis
    by (simp add: ex_client_def ex_world_def)
qed

subsection \<open>Decoding a response\<close>





lemma fold_Response_field_no_data:
  "\<forall>k \<in> fst ` set fs. \<not> key_is ''data'' k \<Longrightarrow>
     Data (fst (fold Unmarshal_Response_field fs acc)) = Data (fst acc)"
proof (induction fs arbitrary: acc)
  case Nil
  show ?case by simp
next
  case (Cons kv fs)
  obtain k j where kv: "kv = (k, j)" by (cases kv)
  obtain v saved where acc: "acc = (v, saved)" by (cases acc)
  from Cons.prems kv have k: "\<not> key_is ''data'' k"
    and rest: "\<forall>k \<in> fst ` set fs. \<not> key_is ''data'' k"
    by auto
  have "Data (fst (Unmarshal_Response_field kv acc)) = Data (fst acc)"
    using k by (simp add: kv acc Unmarshal_Response_field_def split: prod.split)
  with Cons.IH [OF rest] show ?case by simp
qed

text \<open>An envelope without a key for \<^verbatim>\<open>data\<close>, in any spelling that folds to it, on a
  success status: the protocol error, and the destination is not written.\<close>

lemma parseResponse_missing_data:
  assumes "StatusCode resp = 200 \<or> StatusCode resp = 201"
      and "RespBody resp = JSON (JObject fs)"
      and "\<forall>k \<in> fst ` set fs. \<not> key_is ''data'' k"
      and "snd (Unmarshal_Response (JObject fs) Response_zero) = None"
  shows "parseResponse lib resp result = (Err (Failure ''Missing data from response''), result)"
proof -
  obtain v where v: "Unmarshal_Response (JObject fs) Response_zero = (v, None)"
    using assms(4) by (cases "Unmarshal_Response (JObject fs) Response_zero") simp
  have "Data v = Data (fst (fold Unmarshal_Response_field fs (Response_zero, None)))"
    using v by (simp add: Unmarshal_Response_def)
  also have "\<dots> = None"
    using fold_Response_field_no_data [OF assms(3)] by (simp add: Response_zero_def)
  finally have "Data v = None" .
  with assms(1,2) v show ?thesis
    by (auto simp: parseResponse_def)
qed

text \<open>With a \<^verbatim>\<open>data\<close> key whose value is \<^verbatim>\<open>null\<close>, the test for missing data is passed
  over, for every destination: the outcome is that of decoding \<^verbatim>\<open>null\<close> into it.\<close>

lemma parseResponse_null_data_decoded:
  "parseResponse lib \<lparr>StatusCode = 200, RespBody = JSON (JObject [(''data'', JNull)])\<rparr> result =
     (case json_Unmarshal lib JNull result of
        (result', Some err) \<Rightarrow> (Err err, result')
      | (result', None) \<Rightarrow> (Ok \<lparr>Data = Some JNull, NextPage = None, Errors = []\<rparr>, result'))"
  by (simp add: parseResponse_def parseResponseData_def Unmarshal_Response_def
        Unmarshal_Response_field_def Response_zero_def key_is_def split: prod.split option.split)

text \<open>
  C3. On the response with status 200 and the body \<^verbatim>\<open>{"data": null}\<close> the source does not
  fail: the \<^verbatim>\<open>json.RawMessage\<close> holds the four bytes \<^verbatim>\<open>null\<close>, which is not the nil
  slice that line 308 tests for, and decoding \<^verbatim>\<open>null\<close> into the destination reports no
  error. The call returns without an error.
\<close>

theorem parseResponse_null_data:
  "parseResponse (ex_lib Unmarshal_gid)
     \<lparr>StatusCode = 200, RespBody = JSON (JObject [(''data'', JNull)])\<rparr> ''old'' =
   (Ok \<lparr>Data = Some JNull, NextPage = None, Errors = []\<rparr>, ''old'') \<and>
   fst (get (ex_client Options_zero) (ex_lib Unmarshal_gid) ''/tasks/1'' None ''old'' None
          (ex_world Options_zero
             [Inr \<lparr>StatusCode = 200, RespBody = JSON (JObject [(''data'', JNull)])\<rparr>])) =
   Ok None"
  by (simp add: transport_defs instance_defs)

subsection \<open>Validation\<close>

text \<open>
  C6, as amended. When the payload's \<^verbatim>\<open>Validate\<close> returns an error, the call returns that
  error, whatever serialization would have given, and issues no HTTP request.
  A read call changes nothing at all. A write call has merged the defaults into the first
  \<^verbatim>\<open>Options\<close> it was given before it validates: that object is left merged, every other
  object, the destination and the network are as before. (A write call given an empty,
  non-nil slice of options panics before it validates.)
\<close>

theorem validation_aborts:
  assumes "run_Validator d = Some err"
  shows "(\<forall>qd. query_Values_Options lib (DefaultOptions c) = Inr qd \<longrightarrow>
            get c lib path (Some d) result opts w = (Err err, result, w)) \<and>
         (opts \<noteq> Some [] \<longrightarrow>
            (\<exists>w'. do c lib method path (Some d) result opts w = (Err err, result, w') \<and>
                  sent w' = sent w \<and> net w' = net w \<and>
                  (\<forall>a. (\<forall>rest. opts \<noteq> Some (Ref a # rest)) \<longrightarrow> store w' a = store w a) \<and>
                  (\<forall>a rest. opts = Some (Ref a # rest) \<longrightarrow>
                     store w' a = deepMerge (store w a) (DefaultOptions c)))) \<and>
         post c lib path (Some d) result opts w = do c lib ''POST'' path (Some d) result opts w \<and>
         put c lib path (Some d) result opts w = do c lib ''PUT'' path (Some d) result opts w"
proof -
  have g: "\<forall>qd. query_Values_Options lib (DefaultOptions c) = Inr qd \<longrightarrow>
            get c lib path (Some d) result opts w = (Err err, result, w)"
    by (simp add: get_invalid [OF assms])
  have w: "opts \<noteq> Some [] \<longrightarrow>
            (\<exists>w'. do c lib method path (Some d) result opts w = (Err err, result, w') \<and>
                  sent w' = sent w \<and> net w' = net w \<and>
                  (\<forall>a. (\<forall>rest. opts \<noteq> Some (Ref a # rest)) \<longrightarrow> store w' a = store w a) \<and>
                  (\<forall>a rest. opts = Some (Ref a # rest) \<longrightarrow>
                     store w' a = deepMerge (store w a) (DefaultOptions c)))"
  proof
    assume "opts \<noteq> Some []"
    then obtain p where p: "first_Options opts = Returns p"
      using first_Options_Returns by blast
    obtain m where m: "Merge_into (if p = Nil then Tmp Options_zero else p) (DefaultOptions c) (store w) =
         Inr (m, case p of Ref a \<Rightarrow> (store w)(a := deepMerge (store w a) (DefaultOptions c)) | _ \<Rightarrow> store w)"
      using Merge_into_first by blast
    let ?st = "case p of Ref a \<Rightarrow> (store w)(a := deepMerge (store w a) (DefaultOptions c)) | _ \<Rightarrow> store w"
    have run: "do c lib method path (Some d) result opts w = (Err err, result, w\<lparr>store := ?st\<rparr>)"
      by (rule do_invalid [OF assms p m])
    have other: "\<forall>a. (\<forall>rest. opts \<noteq> Some (Ref a # rest)) \<longrightarrow> ?st a = store w a"
      using p by (auto simp: first_Options_def split: option.splits list.splits Options_ptr.splits)
    have first: "\<forall>a rest. opts = Some (Ref a # rest) \<longrightarrow> ?st a = deepMerge (store w a) (DefaultOptions c)"
      using p by (auto simp: first_Options_def)
    from run other first show "\<exists>w'. do c lib method path (Some d) result opts w = (Err err, result, w') \<and>
                  sent w' = sent w \<and> net w' = net w \<and>
                  (\<forall>a. (\<forall>rest. opts \<noteq> Some (Ref a # rest)) \<longrightarrow> store w' a = store w a) \<and>
                  (\<forall>a rest. opts = Some (Ref a # rest) \<longrightarrow>
                     store w' a = deepMerge (store w a) (DefaultOptions c))"
      by simp
  qed
  from g w show ?thesis
    by (simp add: post_def put_def)
qed

theorem validation_aborts_witness:
  "get (ex_client Options_zero) (ex_lib Unmarshal_gid) ''/tasks'' (Some ex_invalid) ''old'' None
     (ex_world Options_zero []) =
   (Err (Failure ''name is required''), ''old'', ex_world Options_zero []) \<and>
   (\<exists>w'. do (ex_client Options_zero) (ex_lib Unmarshal_gid) ''POST'' ''/tasks'' (Some ex_invalid)
            ''old'' None (ex_world Options_zero []) =
          (Err (Failure ''name is required''), ''old'', w') \<and>
          sent w' = [] \<and> net w' = [])"
proof -
  have v: "run_Validator ex_invalid = Some (Failure ''name is required'')"
    by (simp add: run_Validator_def ex_invalid_def)
  have q: "query_Values_Options (ex_lib Unmarshal_gid) (DefaultOptions (ex_client Options_zero)) = Inr []"
    by (simp add: ex_lib_def ex_client_def ex_query_Values_def Options_zero_def)
  from validation_aborts [OF v, of "ex_lib Unmarshal_gid" "ex_client Options_zero" "''/tasks''"
      "''old''" None "ex_world Options_zero []" "''POST''"] q
  show ?thesis
    by (auto simp: ex_world_def)
qed

text \<open>The claim as stated fails for a write call: the validation error is returned, and
  the caller's \<^verbatim>\<open>Options\<close> has been changed.\<close>

theorem validation_aborts_counterexample:
  "fst (post (ex_client \<lparr>Pretty = False, Fields = [], Limit = 50, Offset = []\<rparr>)
          (ex_lib Unmarshal_gid) ''/tasks'' (Some ex_invalid) ''old'' (Some [Ref 0])
          (ex_world Options_zero [])) = Err (Failure ''name is required'') \<and>
   Limit (store (ex_world Options_zero []) 0) = 0 \<and>
   Limit (store (snd (snd
     (post (ex_client \<lparr>Pretty = False, Fields = [], Limit = 50, Offset = []\<rparr>)
          (ex_lib Unmarshal_gid) ''/tasks'' (Some ex_invalid) ''old'' (Some [Ref 0])
          (ex_world Options_zero [])))) 0) = 50"
  by (simp add: transport_defs instance_defs)

subsection \<open>What a call does to the caller's options\<close>

text \<open>
  C7, as amended. The calls are functions of their arguments. A read call leaves every
  \<^verbatim>\<open>Options\<close> object as it was. A write call leaves every \<^verbatim>\<open>Options\<close> object as it was but
  the first one it is given: that object is overwritten by its merge with the client's
  defaults, in which its set fields keep their values. The client, and so its
  \<^verbatim>\<open>DefaultOptions\<close>, is read only.
\<close>

theorem options_frame:
  "(get c lib path data result opts w = (rg, resultg, wg) \<longrightarrow> store wg = store w) \<and>
   (do c lib method path data result opts w = (r, result', w') \<longrightarrow>
      (\<forall>a. (\<forall>rest. opts \<noteq> Some (Ref a # rest)) \<longrightarrow> store w' a = store w a) \<and>
      (\<forall>a rest. opts = Some (Ref a # rest) \<longrightarrow>
         store w' a = deepMerge (store w a) (DefaultOptions c) \<and>
         (Pretty (store w a) \<longrightarrow> Pretty (store w' a)) \<and>
         (Fields (store w a) \<noteq> [] \<longrightarrow> Fields (store w' a) = Fields (store w a)) \<and>
         (Limit (store w a) \<noteq> 0 \<longrightarrow> Limit (store w' a) = Limit (store w a)) \<and>
         (Offset (store w a) \<noteq> [] \<longrightarrow> Offset (store w' a) = Offset (store w a))))"
proof (intro conjI impI)
  assume "get c lib path data result opts w = (rg, resultg, wg)"
  then show "store wg = store w" by (rule get_store)
next
  assume run: "do c lib method path data result opts w = (r, result', w')"
  show "\<forall>a. (\<forall>rest. opts \<noteq> Some (Ref a # rest)) \<longrightarrow> store w' a = store w a"
  proof (cases "opts = Some []")
    case True
    with run show ?thesis by (simp add: do_no_Options)
  next
    case False
    then obtain p where p: "first_Options opts = Returns p"
      using first_Options_Returns by blast
    obtain m where m: "Merge_into (if p = Nil then Tmp Options_zero else p) (DefaultOptions c) (store w) =
         Inr (m, case p of Ref a \<Rightarrow> (store w)(a := deepMerge (store w a) (DefaultOptions c)) | _ \<Rightarrow> store w)"
      using Merge_into_first by blast
    from do_exit_store [OF p m run] p show ?thesis
      by (auto simp: first_Options_def split: option.splits list.splits Options_ptr.splits)
  qed
  show "\<forall>a rest. opts = Some (Ref a # rest) \<longrightarrow>
         store w' a = deepMerge (store w a) (DefaultOptions c) \<and>
         (Pretty (store w a) \<longrightarrow> Pretty (store w' a)) \<and>
         (Fields (store w a) \<noteq> [] \<longrightarrow> Fields (store w' a) = Fields (store w a)) \<and>
         (Limit (store w a) \<noteq> 0 \<longrightarrow> Limit (store w' a) = Limit (store w a)) \<and>
         (Offset (store w a) \<noteq> [] \<longrightarrow> Offset (store w' a) = Offset (store w a))"
  proof (intro allI impI)
    fix a rest
    assume o: "opts = Some (Ref a # rest)"
    then have p: "first_Options opts = Returns (Ref a)"
      by (simp add: first_Options_def)
    have m: "Merge_into (if Ref a = Nil then Tmp Options_zero else Ref a) (DefaultOptions c) (store w) =
               Inr (deepMerge (store w a) (DefaultOptions c),
                    (store w)(a := deepMerge (store w a) (DefaultOptions c)))"
      by (simp add: Merge_into_Ref)
    have s: "store w' a = deepMerge (store w a) (DefaultOptions c)"
      using do_exit_store [OF p m run] by simp
    with deepMerge_fields [of "store w a" "DefaultOptions c"]
    show "store w' a = deepMerge (store w a) (DefaultOptions c) \<and>
         (Pretty (store w a) \<longrightarrow> Pretty (store w' a)) \<and>
         (Fields (store w a) \<noteq> [] \<longrightarrow> Fields (store w' a) = Fields (store w a)) \<and>
         (Limit (store w a) \<noteq> 0 \<longrightarrow> Limit (store w' a) = Limit (store w a)) \<and>
         (Offset (store w a) \<noteq> [] \<longrightarrow> Offset (store w' a) = Offset (store w a))"
      by simp
  qed
qed

lemma get_listing:
  "get (ex_client \<lparr>Pretty = False, Fields = [''name''], Limit = 50, Offset = []\<rparr>)
      (ex_lib Unmarshal_gids) ''/tasks'' None [] (Some [Ref 0])
      (ex_world \<lparr>Pretty = False, Fields = [], Limit = 10, Offset = ''abc''\<rparr>
         [Inr \<lparr>StatusCode = 200,
               RespBody = JSON (JObject [(''data'', JArray [JObject [(''gid'', JString ''7'')]])])\<rparr>])
   = (Ok None, [''7''],
      \<lparr>store = (\<lambda>a. \<lparr>Pretty = False, Fields = [], Limit = 10, Offset = ''abc''\<rparr>),
       sent = [\<lparr>Method = ''GET'',
                URL = ''https://app.asana.com/api/1.0/tasks?opt_fields=name&limit=10&offset=abc'',
                Header = [(''Asana-Fast-Api'', ''true'')],
                Body = NoBody\<rparr>],
       net = []\<rparr>)"
  by (simp add: transport_defs instance_defs itoa_nat.simps)

theorem options_frame_witness:
  "store \<lparr>store = (\<lambda>a. \<lparr>Pretty = False, Fields = [], Limit = 10, Offset = ''abc''\<rparr>),
          sent = [\<lparr>Method = ''GET'',
                   URL = ''https://app.asana.com/api/1.0/tasks?opt_fields=name&limit=10&offset=abc'',
                   Header = [(''Asana-Fast-Api'', ''true'')],
                   Body = NoBody\<rparr>],
          net = ([] :: (error + http_response) list)\<rparr> =
   store (ex_world \<lparr>Pretty = False, Fields = [], Limit = 10, Offset = ''abc''\<rparr>
         [Inr \<lparr>StatusCode = 200,
               RespBody = JSON (JObject [(''data'', JArray [JObject [(''gid'', JString ''7'')]])])\<rparr>]) \<and>
   ((\<lambda>a. \<lparr>Pretty = False, Fields = [], Limit = 10, Offset = ''abc''\<rparr>)
      (0 := \<lparr>Pretty = False, Fields = [''name''], Limit = 10, Offset = ''abc''\<rparr>)) (0 :: nat) =
   deepMerge \<lparr>Pretty = False, Fields = [], Limit = 10, Offset = ''abc''\<rparr>
     \<lparr>Pretty = False, Fields = [''name''], Limit = 50, Offset = []\<rparr>"
proof -
  note g = options_frame [THEN conjunct1, THEN mp, OF get_listing]
  note d = options_frame [THEN conjunct2, THEN mp, OF post_created]
  from g d show ?thesis
    by (simp add: ex_world_def ex_client_def)
qed

text \<open>The claim as stated fails for a write call: after a \<^verbatim>\<open>put\<close> the caller's
  \<^verbatim>\<open>Options\<close> holds the client's default where it had no value.\<close>

theorem options_frame_counterexample:
  "store (snd (snd
     (put (ex_client \<lparr>Pretty = True, Fields = [], Limit = 0, Offset = []\<rparr>)
        (ex_lib Unmarshal_gid) ''/tasks/1'' None ''old'' (Some [Ref 3])
        (ex_world Options_zero [])))) 3 =
     \<lparr>Pretty = True, Fields = [], Limit = 0, Offset = []\<rparr> \<and>
   store (ex_world Options_zero []) 3 = \<lparr>Pretty = False, Fields = [], Limit = 0, Offset = []\<rparr>"
  by (simp add: transport_defs instance_defs)

subsection \<open>Paths\<close>

text \<open>
  C8, as amended. For a path that is empty or whose first character is not \<^verbatim>\<open>/\<close>,
  URL construction panics, and so does every transport call that reaches it, with no
  HTTP request issued: \<^verbatim>\<open>postMultipart\<close> always (after closing the stream), a read call
  when its query parameters have been built, a write call when it has options to index,
  validation passes and the payload marshals. A call that fails at one of these earlier
  steps returns that step's error instead. For a path that begins with \<^verbatim>\<open>/\<close>, URL
  construction returns the base URL with the path appended.
\<close>

theorem getURL_panics:
  "(path = [] \<or> hd path \<noteq> CHR ''/'' \<longrightarrow>
      (\<exists>msg. getURL c path = Panics msg) \<and>
      (\<forall>q. get_query c lib data opts (store w) = Inr q \<longrightarrow>
         (\<exists>msg. get c lib path data result opts w = (Panic msg, result, w))) \<and>
      (opts \<noteq> Some [] \<and>
       (\<forall>d. data = Some d \<longrightarrow> run_Validator d = None \<and> (\<exists>j. json_Marshal d = Inr j)) \<longrightarrow>
         (\<exists>msg w'. do c lib method path data result opts w = (Panic msg, result, w') \<and>
            sent w' = sent w \<and> net w' = net w)) \<and>
      (\<exists>msg. postMultipart c lib path result field r filename contentType w =
         (Panic msg, result, r\<lparr>Close_calls := Suc (Close_calls r)\<rparr>, w))) \<and>
   (path \<noteq> [] \<and> hd path = CHR ''/'' \<longrightarrow> getURL c path = Returns (BaseURL c @ path))"
proof (intro conjI impI)
  assume bad: "path = [] \<or> hd path \<noteq> CHR ''/''"
  let ?msg = "if path = [] then ''runtime error: index out of range [0] with length 0''
              else ''Invalid API path''"
  have u: "getURL c path = Panics ?msg"
    by (rule getURL_bad [OF bad])
  then show "\<exists>msg. getURL c path = Panics msg"
    by blast
  show "\<forall>q. get_query c lib data opts (store w) = Inr q \<longrightarrow>
         (\<exists>msg. get c lib path data result opts w = (Panic msg, result, w))"
  proof (intro allI impI)
    fix q
    assume "get_query c lib data opts (store w) = Inr q"
    then show "\<exists>msg. get c lib path data result opts w = (Panic msg, result, w)"
      by (rule get_bad_path [OF bad])
  qed
  show "\<exists>msg. postMultipart c lib path result field r filename contentType w =
         (Panic msg, result, r\<lparr>Close_calls := Suc (Close_calls r)\<rparr>, w)"
    by (simp add: postMultipart_bad_path [OF u])
next
  assume "path \<noteq> [] \<and> hd path = CHR ''/''"
  then show "getURL c path = Returns (BaseURL c @ path)"
    by (simp add: getURL_good)
next
  assume bad: "path = [] \<or> hd path \<noteq> CHR ''/''"
    and ok: "opts \<noteq> Some [] \<and>
       (\<forall>d. data = Some d \<longrightarrow> run_Validator d = None \<and> (\<exists>j. json_Marshal d = Inr j))"
  let ?msg = "if path = [] then ''runtime error: index out of range [0] with length 0''
              else ''Invalid API path''"
  have u: "getURL c path = Panics ?msg"
    by (rule getURL_bad [OF bad])
  from ok obtain p where p: "first_Options opts = Returns p"
    using first_Options_Returns by blast
  obtain m st where m: "Merge_into (if p = Nil then Tmp Options_zero else p) (DefaultOptions c) (store w) =
         Inr (m, st)"
    using Merge_into_first by blast
  from ok have v: "\<forall>d. data = Some d \<longrightarrow> run_Validator d = None \<and> (\<exists>j. json_Marshal d = Inr j)"
    by simp
  have "do c lib method path data result opts w = (Panic ?msg, result, w\<lparr>store := st\<rparr>)"
    by (rule do_bad_path [OF u p m v])
  then show "\<exists>msg w'. do c lib method path data result opts w = (Panic msg, result, w') \<and>
            sent w' = sent w \<and> net w' = net w"
    by simp
qed

text \<open>\<^verbatim>\<open>CreateSection\<close> posts to a path without the leading \<^verbatim>\<open>/\<close>.\<close>

lemma CreateSection_panics:
  assumes "run_Validator section = None" and "json_Marshal section = Inr j"
  shows "CreateSection c lib ID section result w = (Panic ''Invalid API path'', result, w)"
proof -
  have u: "getURL c (''projects/'' @ ID @ ''/sections'') = Panics ''Invalid API path''"
    by (simp add: getURL_def)
  have p: "first_Options None = Returns Nil"
    by (simp add: first_Options_def)
  have m: "Merge_into (if Nil = Nil then Tmp Options_zero else Nil) (DefaultOptions c) (store w) =
             Inr (deepMerge Options_zero (DefaultOptions c), store w)"
    by (simp add: Merge_into_Tmp)
  have v: "\<forall>d. Some section = Some d \<longrightarrow> run_Validator d = None \<and> (\<exists>j. json_Marshal d = Inr j)"
    using assms by simp
  from do_bad_path [OF u p m v] show ?thesis
    by (simp add: CreateSection_def post_def)
qed

theorem getURL_panics_witness:
  "getURL (ex_client Options_zero) ''projects/12/sections'' = Panics ''Invalid API path'' \<and>
   get (ex_client Options_zero) (ex_lib Unmarshal_gid) ''projects/12/sections'' None ''old'' None
     (ex_world Options_zero []) = (Panic ''Invalid API path'', ''old'', ex_world Options_zero []) \<and>
   fst (do (ex_client Options_zero) (ex_lib Unmarshal_gid) ''POST'' ''projects/12/sections'' None
     ''old'' None (ex_world Options_zero [])) = Panic ''Invalid API path'' \<and>
   postMultipart (ex_client Options_zero) (ex_lib Unmarshal_gid) ''projects/12/sections'' ''old''
     ''file'' \<lparr>contents = [], Close_calls = 0\<rparr> ''a.txt'' ''text/plain'' (ex_world Options_zero []) =
     (Panic ''Invalid API path'', ''old'', \<lparr>contents = [], Close_calls = 1\<rparr>, ex_world Options_zero []) \<and>
   getURL (ex_client Options_zero) ''/projects/12/sections'' =
     Returns ''https://app.asana.com/api/1.0/projects/12/sections''"
proof -
  have q: "get_query (ex_client Options_zero) (ex_lib Unmarshal_gid) None None
             (store (ex_world Options_zero [])) = Inr []"
    by (simp add: get_query_def ex_client_def ex_lib_def ex_query_Values_def Options_zero_def)
  note bad = getURL_panics [THEN conjunct1, of "''projects/12/sections''" "ex_client Options_zero"
      "ex_lib Unmarshal_gid" None None "ex_world Options_zero []" "''old''" "''POST''"
      "''file''" "\<lparr>contents = [], Close_calls = 0\<rparr>" "''a.txt''" "''text/plain''"]
  note good = getURL_panics [THEN conjunct2, of "''/projects/12/sections''" "ex_client Options_zero"]
  from bad good q show ?thesis
    by (auto simp: getURL_def ex_client_def get_def do_def postMultipart_def
          Writer_CreatePart_def Writer_Close_def first_Options_def Merge_into_Tmp
          Marshal_request_def)
qed

text \<open>The claim as stated fails for a write call whose payload does not validate: it
  returns the validation error and does not panic.\<close>

theorem getURL_panics_counterexample:
  "post (ex_client Options_zero) (ex_lib Unmarshal_gid) ''projects/12/sections'' (Some ex_invalid)
     ''old'' None (ex_world Options_zero []) =
   (Err (Failure ''name is required''), ''old'', ex_world Options_zero [])"
  by (simp add: transport_defs instance_defs)

subsection \<open>Additional options of a write call\<close>

text \<open>
  C10. A write call uses the first of the \<^verbatim>\<open>Options\<close> it is given and no other: the
  call is the same whatever follows the first. A read call merges every one of them, in
  order.
\<close>

theorem do_first_Options_only:
  "do c lib method path data result (Some (p # rest)) w =
     do c lib method path data result (Some [p]) w \<and>
   post c lib path data result (Some (p # rest)) w = post c lib path data result (Some [p]) w \<and>
   put c lib path data result (Some (p # rest)) w = put c lib path data result (Some [p]) w \<and>
   get_query c lib data (Some (p # rest)) st =
     (case get_query c lib data (Some [p]) st of
        Inl err \<Rightarrow> Inl err
      | Inr q \<Rightarrow> merge_opts lib st q rest)"
  by (simp add: do_def post_def put_def first_Options_def get_query_def
        split: sum.split option.split)

theorem do_first_Options_only_witness:
  "do (ex_client Options_zero) (ex_lib Unmarshal_gid) ''POST'' ''/tasks'' None ''old''
     (Some [Tmp (Options_zero\<lparr>Limit := 5\<rparr>), Tmp (Options_zero\<lparr>Limit := 7, Offset := ''x''\<rparr>)])
     (ex_world Options_zero []) =
   do (ex_client Options_zero) (ex_lib Unmarshal_gid) ''POST'' ''/tasks'' None ''old''
     (Some [Tmp (Options_zero\<lparr>Limit := 5\<rparr>)]) (ex_world Options_zero []) \<and>
   get_query (ex_client Options_zero) (ex_lib Unmarshal_gid) None
     (Some [Tmp (Options_zero\<lparr>Limit := 5\<rparr>), Tmp (Options_zero\<lparr>Limit := 7, Offset := ''x''\<rparr>)])
     (\<lambda>a. Options_zero) = Inr [(''limit'', [''7'']), (''offset'', [''x''])] \<and>
   get_query (ex_client Options_zero) (ex_lib Unmarshal_gid) None
     (Some [Tmp (Options_zero\<lparr>Limit := 5\<rparr>)]) (\<lambda>a. Options_zero) = Inr [(''limit'', [''5''])]"
proof -
  have "get_query (ex_client Options_zero) (ex_lib Unmarshal_gid) None
     (Some [Tmp (Options_zero\<lparr>Limit := 5\<rparr>)]) (\<lambda>a. Options_zero) = Inr [(''limit'', [''5''])]"
    by (simp add: transport_defs instance_defs itoa_nat.simps)
  with do_first_Options_only [of "ex_client Options_zero" "ex_lib Unmarshal_gid" "''POST''" "''/tasks''"
      None "''old''" "Tmp (Options_zero\<lparr>Limit := 5\<rparr>)"
      "[Tmp (Options_zero\<lparr>Limit := 7, Offset := ''x''\<rparr>)]" "ex_world Options_zero []" "\<lambda>a. Options_zero"]
  show ?thesis
    by (simp add: transport_defs instance_defs itoa_nat.simps)
qed

subsection \<open>Query parameters\<close>

lemma map_of_Values_Del: "map_of (Values_Del q key) = (map_of q)(key := None)"
  by (induction q) (auto simp: Values_Del_def)

lemma map_of_Values_Add:
  "map_of (Values_Add q key val) =
     (map_of q)(key \<mapsto> (case map_of q key of None \<Rightarrow> [] | Some vals \<Rightarrow> vals) @ [val])"
  by (induction q) (auto simp: fun_eq_iff)

lemma map_of_fold_Values_Add:
  "vals \<noteq> [] \<Longrightarrow>
     map_of (fold (\<lambda>val q. Values_Add q key val) vals q) =
       (map_of q)(key \<mapsto> (case map_of q key of None \<Rightarrow> [] | Some old \<Rightarrow> old) @ vals)"
proof (induction vals arbitrary: q)
  case Nil
  then show ?case by simp
next
  case (Cons v vals)
  show ?case
  proof (cases "vals = []")
    case True
    then show ?thesis by (simp add: map_of_Values_Add)
  next
    case False
    from Cons.IH [OF False, of "Values_Add q key v"] show ?thesis
      by (auto simp: map_of_Values_Add fun_eq_iff)
  qed
qed

text \<open>One iteration of the loop of \<^verbatim>\<open>mergeQuery\<close>: the key is deleted, then its new values
  are added.\<close>

lemma map_of_replace_key:
  "map_of (fold (\<lambda>val q. Values_Add q key val) vals (Values_Del q key)) =
     (if vals = [] then (map_of q)(key := None) else (map_of q)(key \<mapsto> vals))"
proof (cases "vals = []")
  case True
  then show ?thesis by (simp add: map_of_Values_Del)
next
  case False
  from map_of_fold_Values_Add [OF False, of key "Values_Del q key"] False show ?thesis
    by (simp add: map_of_Values_Del)
qed

lemma map_of_merge_loop:
  "distinct (map fst ps) \<Longrightarrow>
     map_of (fold (\<lambda>kv q. fold (\<lambda>val q. Values_Add q (fst kv) val) (snd kv) (Values_Del q (fst kv))) ps q) =
       override (map_of q) ps"
proof (induction ps arbitrary: q)
  case Nil
  show ?case by (simp add: override_def)
next
  case (Cons kv ps)
  let ?q = "fold (\<lambda>val q. Values_Add q (fst kv) val) (snd kv) (Values_Del q (fst kv))"
  from Cons.prems have d: "distinct (map fst ps)" and n: "fst kv \<notin> fst ` set ps"
    by simp_all
  from n have none: "map_of ps (fst kv) = None"
    by (simp add: map_of_eq_None_iff)
  have "map_of (fold (\<lambda>kv q. fold (\<lambda>val q. Values_Add q (fst kv) val) (snd kv) (Values_Del q (fst kv))) (kv # ps) q) =
          override (map_of ?q) ps"
    using Cons.IH [OF d, of ?q] by simp
  also have "\<dots> = override (map_of q) (kv # ps)"
    using none by (cases kv) (auto simp: override_def map_of_replace_key fun_eq_iff split: option.splits)
  finally show ?case .
qed

lemma mergeQuery_override:
  "distinct (map fst ps) \<Longrightarrow>
     \<exists>q'. mergeQuery q (Inr ps) = Inr q' \<and> map_of q' = override (map_of q) ps"
  by (simp add: mergeQuery_def map_of_merge_loop)

lemma merge_opts_override:
  "map (query_Values_ptr lib st) ptrs = map Inr srcs \<Longrightarrow>
   \<forall>ps \<in> set srcs. distinct (map fst ps) \<Longrightarrow>
     \<exists>q'. merge_opts lib st q ptrs = Inr q' \<and> map_of q' = foldl override (map_of q) srcs"
proof (induction ptrs arbitrary: q srcs)
  case Nil
  then show ?case by simp
next
  case (Cons p ptrs)
  from Cons.prems(1) obtain ps rest where srcs: "srcs = ps # rest"
    and p: "query_Values_ptr lib st p = Inr ps"
    and r: "map (query_Values_ptr lib st) ptrs = map Inr rest"
    by (cases srcs) auto
  from Cons.prems(2) srcs have d: "distinct (map fst ps)" and dr: "\<forall>ps \<in> set rest. distinct (map fst ps)"
    by simp_all
  from mergeQuery_override [OF d, of q] obtain q1 where
    q1: "mergeQuery q (Inr ps) = Inr q1" "map_of q1 = override (map_of q) ps"
    by blast
  from Cons.IH [OF r dr, of q1] obtain q' where
    "merge_opts lib st q1 ptrs = Inr q'" "map_of q' = foldl override (map_of q1) rest"
    by blast
  with q1 p srcs show ?case by simp
qed

text \<open>
  C4. When the sources of a read call can be encoded and the payload validates, the
  query parameters of the call are the client's defaults overridden by the domain request
  value, then by each of the options in the order given, each time by the rule of
  \<open>override\<close>: the values a later source gives for a key replace all earlier values of
  the key, and a key that a later source does not give keeps its values.
\<close>

theorem get_query_precedence:
  assumes "query_Values_Options lib (DefaultOptions c) = Inr defaults"
      and "\<forall>d. data = Some d \<longrightarrow> run_Validator d = None"
      and "query_sources lib st data opts = map Inr later"
      and "\<forall>ps \<in> set later. distinct (map fst ps)"
  shows "\<exists>q. get_query c lib data opts st = Inr q \<and>
              map_of q = foldl override (map_of defaults) later"
proof (cases data)
  case None
  with assms(3) have "map (query_Values_ptr lib st) (range_slice opts) = map Inr later"
    by (simp add: query_sources_def)
  from merge_opts_override [OF this assms(4), of defaults] None assms(1) show ?thesis
    by (simp add: get_query_def)
next
  case (Some d)
  with assms(3) obtain ps rest where later: "later = ps # rest"
    and ps: "query_Values d = Inr ps"
    and r: "map (query_Values_ptr lib st) (range_slice opts) = map Inr rest"
    by (cases later) (auto simp: query_sources_def)
  from assms(4) later have d: "distinct (map fst ps)" and dr: "\<forall>ps \<in> set rest. distinct (map fst ps)"
    by simp_all
  from assms(2) Some have v: "run_Validator d = None"
    by simp
  from mergeQuery_override [OF d, of defaults] obtain q1 where
    q1: "mergeQuery defaults (Inr ps) = Inr q1" "map_of q1 = override (map_of defaults) ps"
    by blast
  from merge_opts_override [OF r dr, of q1] obtain q where
    "merge_opts lib st q1 (range_slice opts) = Inr q" "map_of q = foldl override (map_of q1) rest"
    by blast
  with q1 ps v Some assms(1) later show ?thesis
    by (simp add: get_query_def)
qed

lemma get_query_run:
  "get_query (ex_client \<lparr>Pretty = False, Fields = [''name''], Limit = 50, Offset = []\<rparr>)
     (ex_lib Unmarshal_gids)
     (Some \<lparr>Validate = Some None,
            query_Values = Inr [(''workspace'', [''9'']), (''limit'', [''20''])],
            json_Marshal = Inr JNull\<rparr>)
     (Some [Ref 0, Tmp (Options_zero\<lparr>Offset := ''zzz''\<rparr>)])
     (\<lambda>a. \<lparr>Pretty = False, Fields = [], Limit = 10, Offset = ''abc''\<rparr>) =
   Inr [(''opt_fields'', [''name'']), (''workspace'', [''9'']), (''limit'', [''10'']),
        (''offset'', [''zzz''])]"
  by (simp add: transport_defs instance_defs itoa_nat.simps)

theorem get_query_precedence_witness:
  "map_of [(''opt_fields'', [''name'']), (''workspace'', [''9'']), (''limit'', [''10'']),
           (''offset'', [''zzz''])] =
   foldl override (map_of [(''opt_fields'', [''name'']), (''limit'', [''50''])])
     [[(''workspace'', [''9'']), (''limit'', [''20''])],
      [(''limit'', [''10'']), (''offset'', [''abc''])],
      [(''offset'', [''zzz''])]]"
proof -
  let ?c = "ex_client \<lparr>Pretty = False, Fields = [''name''], Limit = 50, Offset = []\<rparr>"
  let ?d = "\<lparr>Validate = Some None,
            query_Values = Inr [(''workspace'', [''9'']), (''limit'', [''20''])],
            json_Marshal = Inr JNull\<rparr>"
  let ?st = "\<lambda>a::nat. \<lparr>Pretty = False, Fields = [], Limit = 10, Offset = ''abc''\<rparr>"
  let ?opts = "Some [Ref 0, Tmp (Options_zero\<lparr>Offset := ''zzz''\<rparr>)]"
  let ?later = "[[(''workspace'', [''9'']), (''limit'', [''20''])],
                 [(''limit'', [''10'']), (''offset'', [''abc''])],
                 [(''offset'', [''zzz''])]]"
  have a: "query_Values_Options (ex_lib Unmarshal_gids) (DefaultOptions ?c) =
             Inr [(''opt_fields'', [''name'']), (''limit'', [''50''])]"
    by (simp add: instance_defs itoa_nat.simps)
  have b: "\<forall>d. Some ?d = Some d \<longrightarrow> run_Validator d = None"
    by (simp add: run_Validator_def)
  have s: "query_sources (ex_lib Unmarshal_gids) ?st (Some ?d) ?opts = map Inr ?later"
    by (simp add: query_sources_def query_Values_ptr_def instance_defs Options_zero_def itoa_nat.simps)
  have d: "\<forall>ps \<in> set ?later. distinct (map fst ps)"
    by simp
  from get_query_precedence [OF a b s d] show ?thesis
    by (simp add: get_query_run)
qed

subsection \<open>Multipart upload\<close>

lemma postMultipart_closes:
  "fst (snd (snd (postMultipart c lib path result field r filename contentType w))) =
     r\<lparr>Close_calls := Suc (Close_calls r)\<rparr>"
  by (simp add: postMultipart_def case_prod_beta)

lemma postMultipart_exit_sent:
  assumes "postMultipart c lib path result field r filename contentType w = (res, result', r', w')"
      and "Writer_CreatePart (RandomBoundary lib)
             [(''Content-Disposition'', Content_Disposition field filename),
              (''Content-Type'', contentType)] = Inr header"
      and "Writer_Close (RandomBoundary lib) = Inr footer"
  shows "(sent w' = sent w \<and> net w' = net w \<and> result' = result \<and> res \<noteq> Ok ()) \<or>
         (\<exists>url hdr. sent w' = sent w @
            [\<lparr>Method = ''POST'', URL = url, Header = hdr,
              Body = Bytes (header @ contents r @ footer)\<rparr>])"
  using assms(1)
  apply (cases "FastAPI c")
  apply (simp_all add: postMultipart_def assms(2) assms(3) http_NewRequest_def HTTPClient_Do_def
      Header_Add_def case_prod_beta
      split: option.splits sum.splits may_panic.splits result.splits)
  apply auto
  done

text \<open>Quoting of the field name and the file name: a backslash and a double quote get a
  backslash in front, every other byte stays.\<close>

lemma escapeQuotes_Cons:
  "escapeQuotes (c # s) =
     (if c = CHR 0x5C then [CHR 0x5C, CHR 0x5C]
      else if c = CHR 0x22 then [CHR 0x5C, CHR 0x22]
      else [c]) @ escapeQuotes s"
  by (simp add: escapeQuotes_def)

text \<open>A multipart upload on a path that begins with \<^verbatim>\<open>/\<close> and a URL that the library
  accepts issues one request, whose body is the header bytes, the contents of the
  stream and the footer bytes.\<close>

lemma postMultipart_sends:
  assumes "path \<noteq> []" and "hd path = CHR ''/''"
      and "http_NewRequest_error lib ''POST'' (BaseURL c @ path) = None"
      and "Writer_CreatePart (RandomBoundary lib)
             [(''Content-Disposition'', Content_Disposition field filename),
              (''Content-Type'', contentType)] = Inr header"
      and "Writer_Close (RandomBoundary lib) = Inr footer"
  shows "sent (snd (snd (snd (postMultipart c lib path result field r filename contentType w)))) =
           sent w @
           [\<lparr>Method = ''POST'', URL = BaseURL c @ path,
             Header = (''Content-Type'', FormDataContentType (RandomBoundary lib)) #
                      (if FastAPI c then [(''Asana-Fast-Api'', ''true'')] else []),
             Body = Bytes (header @ contents r @ footer)\<rparr>]"
proof -
  have u: "getURL c path = Returns (BaseURL c @ path)"
    by (rule getURL_good [OF assms(1,2)])
  show ?thesis
    by (cases "FastAPI c")
       (simp_all add: postMultipart_def assms(4) assms(5) u http_NewRequest_def assms(3)
          HTTPClient_Do_def Header_Add_def case_prod_beta
          split: sum.split result.split)
qed

text \<open>
  C9. \<^verbatim>\<open>postMultipart\<close> calls \<^verbatim>\<open>Close\<close> on the stream once, however the call ends, and
  leaves its contents alone. With \<open>header\<close> the bytes the multipart writer writes for the
  part header and \<open>footer\<close> the bytes it writes on closing: when the path begins with \<^verbatim>\<open>/\<close>
  and the request can be made, the call issues one request, whose body is \<open>header\<close>, then
  the contents of the stream, then \<open>footer\<close>; for a stream of length zero that is \<open>header\<close>
  followed at once by \<open>footer\<close>. Any request the call issues has that body.
\<close>

theorem postMultipart_body_and_close:
  assumes "header = ''--'' @ RandomBoundary lib @ CRLF @
             ''Content-Disposition: '' @ Content_Disposition field filename @ CRLF @
             ''Content-Type: '' @ contentType @ CRLF @ CRLF"
      and "footer = CRLF @ ''--'' @ RandomBoundary lib @ ''--'' @ CRLF"
  shows "fst (snd (snd (postMultipart c lib path result field r filename contentType w))) =
           r\<lparr>Close_calls := Suc (Close_calls r)\<rparr> \<and>
         Writer_CreatePart (RandomBoundary lib)
           [(''Content-Disposition'', Content_Disposition field filename),
            (''Content-Type'', contentType)] = Inr header \<and>
         Writer_Close (RandomBoundary lib) = Inr footer \<and>
         (path \<noteq> [] \<and> hd path = CHR ''/'' \<and>
          http_NewRequest_error lib ''POST'' (BaseURL c @ path) = None \<longrightarrow>
            sent (snd (snd (snd (postMultipart c lib path result field r filename contentType w)))) =
              sent w @
              [\<lparr>Method = ''POST'', URL = BaseURL c @ path,
                Header = (''Content-Type'', FormDataContentType (RandomBoundary lib)) #
                         (if FastAPI c then [(''Asana-Fast-Api'', ''true'')] else []),
                Body = Bytes (header @ contents r @ footer)\<rparr>]) \<and>
         (path \<noteq> [] \<and> hd path = CHR ''/'' \<and>
          http_NewRequest_error lib ''POST'' (BaseURL c @ path) = None \<and> contents r = [] \<longrightarrow>
            sent (snd (snd (snd (postMultipart c lib path result field r filename contentType w)))) =
              sent w @
              [\<lparr>Method = ''POST'', URL = BaseURL c @ path,
                Header = (''Content-Type'', FormDataContentType (RandomBoundary lib)) #
                         (if FastAPI c then [(''Asana-Fast-Api'', ''true'')] else []),
                Body = Bytes (header @ footer)\<rparr>]) \<and>
         (postMultipart c lib path result field r filename contentType w = (res, result', r', w') \<and>
          sent w' = sent w @ [request] \<longrightarrow>
            Body request = Bytes (header @ contents r @ footer) \<and>
            (contents r = [] \<longrightarrow> Body request = Bytes (header @ footer)))"
proof -
  have h: "Writer_CreatePart (RandomBoundary lib)
           [(''Content-Disposition'', Content_Disposition field filename),
            (''Content-Type'', contentType)] = Inr header"
    by (simp add: Writer_CreatePart_def assms(1))
  have f: "Writer_Close (RandomBoundary lib) = Inr footer"
    by (simp add: Writer_Close_def assms(2))
  have closes: "fst (snd (snd (postMultipart c lib path result field r filename contentType w))) =
           r\<lparr>Close_calls := Suc (Close_calls r)\<rparr>"
    by (rule postMultipart_closes)
  have issued: "path \<noteq> [] \<and> hd path = CHR ''/'' \<and>
          http_NewRequest_error lib ''POST'' (BaseURL c @ path) = None \<longrightarrow>
            sent (snd (snd (snd (postMultipart c lib path result field r filename contentType w)))) =
              sent w @
              [\<lparr>Method = ''POST'', URL = BaseURL c @ path,
                Header = (''Content-Type'', FormDataContentType (RandomBoundary lib)) #
                         (if FastAPI c then [(''Asana-Fast-Api'', ''true'')] else []),
                Body = Bytes (header @ contents r @ footer)\<rparr>]"
    using postMultipart_sends [OF _ _ _ h f] by blast
  have empty: "path \<noteq> [] \<and> hd path = CHR ''/'' \<and>
          http_NewRequest_error lib ''POST'' (BaseURL c @ path) = None \<and> contents r = [] \<longrightarrow>
            sent (snd (snd (snd (postMultipart c lib path result field r filename contentType w)))) =
              sent w @
              [\<lparr>Method = ''POST'', URL = BaseURL c @ path,
                Header = (''Content-Type'', FormDataContentType (RandomBoundary lib)) #
                         (if FastAPI c then [(''Asana-Fast-Api'', ''true'')] else []),
                Body = Bytes (header @ footer)\<rparr>]"
    using issued by simp
  have any: "postMultipart c lib path result field r filename contentType w = (res, result', r', w') \<and>
          sent w' = sent w @ [request] \<longrightarrow>
            Body request = Bytes (header @ contents r @ footer) \<and>
            (contents r = [] \<longrightarrow> Body request = Bytes (header @ footer))"
  proof
    assume a: "postMultipart c lib path result field r filename contentType w = (res, result', r', w') \<and>
          sent w' = sent w @ [request]"
    then have run: "postMultipart c lib path result field r filename contentType w = (res, result', r', w')"
      and s: "sent w' = sent w @ [request]"
      by simp_all
    from postMultipart_exit_sent [OF run h f] s
    have "Body request = Bytes (header @ contents r @ footer)"
      by auto
    then show "Body request = Bytes (header @ contents r @ footer) \<and>
            (contents r = [] \<longrightarrow> Body request = Bytes (header @ footer))"
      by simp
  qed
  from closes h f issued empty any show ?thesis
    by blast
qed

theorem postMultipart_body_and_close_witness:
  "Close_calls (fst (snd (snd
     (postMultipart (ex_client Options_zero) (ex_lib Unmarshal_gid) ''/tasks/1/attachments''
        ''old'' ''file'' \<lparr>contents = [], Close_calls = 0\<rparr> ''a.txt'' ''text/plain''
        (ex_world Options_zero []))))) = 1 \<and>
   sent (snd (snd (snd
     (postMultipart (ex_client Options_zero) (ex_lib Unmarshal_gid) ''/tasks/1/attachments''
        ''old'' ''file'' \<lparr>contents = [], Close_calls = 0\<rparr> ''a.txt'' ''text/plain''
        (ex_world Options_zero []))))) =
   [\<lparr>Method = ''POST'', URL = ''https://app.asana.com/api/1.0/tasks/1/attachments'',
     Header = [(''Content-Type'', ''multipart/form-data; boundary=b0undary''),
               (''Asana-Fast-Api'', ''true'')],
     Body = Bytes (''--b0undary'' @ CRLF @
                   ''Content-Disposition: form-data; name='' @ [CHR 0x22] @ ''file'' @
                     [CHR 0x22] @ ''; filename='' @ [CHR 0x22] @ ''a.txt'' @ [CHR 0x22] @ CRLF @
                   ''Content-Type: text/plain'' @ CRLF @ CRLF @
                   CRLF @ ''--b0undary--'' @ CRLF)\<rparr>]"
proof -
  let ?c = "ex_client Options_zero"
  let ?lib = "ex_lib Unmarshal_gid"
  let ?r = "\<lparr>contents = [], Close_calls = 0\<rparr>"
  note t = postMultipart_body_and_close [OF refl refl, where lib = ?lib and c = ?c
      and path = "''/tasks/1/attachments''" and result = "''old''" and field = "''file''"
      and r = ?r and filename = "''a.txt''" and contentType = "''text/plain''"
      and w = "ex_world Options_zero []"]
  have pre: "''/tasks/1/attachments'' \<noteq> [] \<and> hd ''/tasks/1/attachments'' = CHR ''/'' \<and>
          http_NewRequest_error ?lib ''POST'' (BaseURL ?c @ ''/tasks/1/attachments'') = None \<and>
          contents ?r = []"
    by (simp add: ex_lib_def)
  from t [THEN conjunct1]
       t [THEN conjunct2, THEN conjunct2, THEN conjunct2, THEN conjunct2, THEN conjunct1, THEN mp, OF pre]
  show ?thesis
    by (simp add: ex_client_def ex_lib_def ex_world_def FormDataContentType_def
          Content_Disposition_def escapeQuotes_def)
qed

subsection \<open>Fetching all pages\<close>

lemma AllProjects_loop_done:
  "AllProjects_loop c lib ID options None allProjects w = Some (Ok allProjects, w)"
  by (simp add: AllProjects_loop.simps)

lemma AllProjects_loop_more:
  "Projects c lib ID (Some (AllProjects_page np # range_slice options)) w =
     ((projects, Ok nextPage), w') \<Longrightarrow>
   AllProjects_loop c lib ID options (Some np) allProjects w =
     AllProjects_loop c lib ID options nextPage (allProjects @ projects) w'"
  by (subst AllProjects_loop.simps) simp

text \<open>A page that cannot be fetched ends the loop with the error alone, whatever has been
  accumulated.\<close>

lemma AllProjects_loop_error:
  "Projects c lib ID (Some (AllProjects_page np # range_slice options)) w =
     ((projects, Err err), w') \<Longrightarrow>
   AllProjects_loop c lib ID options (Some np) allProjects w = Some (Err err, w')"
  by (subst AllProjects_loop.simps) simp

text \<open>
  C5. When the first two pages come with a cursor and the third without, \<^verbatim>\<open>AllProjects\<close>
  returns, after the third page, the items of the three pages in page order. When the
  fetch of the first, the second or the third page fails, it returns the error and
  none of the items fetched before.
\<close>

theorem AllProjects_three_pages:
  "(Projects c lib ID (Some (AllProjects_page NextPage_zero # range_slice options)) w0 =
      ((items1, Ok (Some np1)), w1) \<and>
    Projects c lib ID (Some (AllProjects_page np1 # range_slice options)) w1 =
      ((items2, Ok (Some np2)), w2) \<and>
    Projects c lib ID (Some (AllProjects_page np2 # range_slice options)) w2 =
      ((items3, Ok None), w3) \<longrightarrow>
    AllProjects c lib ID options w0 = Some (Ok (items1 @ items2 @ items3), w3)) \<and>
   (Projects c lib ID (Some (AllProjects_page NextPage_zero # range_slice options)) w0 =
      ((items1, Err err), w1) \<longrightarrow>
    AllProjects c lib ID options w0 = Some (Err err, w1)) \<and>
   (Projects c lib ID (Some (AllProjects_page NextPage_zero # range_slice options)) w0 =
      ((items1, Ok (Some np1)), w1) \<and>
    Projects c lib ID (Some (AllProjects_page np1 # range_slice options)) w1 =
      ((items2, Err err), w2) \<longrightarrow>
    AllProjects c lib ID options w0 = Some (Err err, w2)) \<and>
   (Projects c lib ID (Some (AllProjects_page NextPage_zero # range_slice options)) w0 =
      ((items1, Ok (Some np1)), w1) \<and>
    Projects c lib ID (Some (AllProjects_page np1 # range_slice options)) w1 =
      ((items2, Ok (Some np2)), w2) \<and>
    Projects c lib ID (Some (AllProjects_page np2 # range_slice options)) w2 =
      ((items3, Err err), w3) \<longrightarrow>
    AllProjects c lib ID options w0 = Some (Err err, w3))"
  by (simp add: AllProjects_def AllProjects_loop_more AllProjects_loop_error AllProjects_loop_done)

lemma listing_page1:
  "Projects (ex_client Options_zero) (ex_lib Unmarshal_gids) ''7''
     (Some (AllProjects_page NextPage_zero # range_slice None))
     (ex_world Options_zero (ex_page [''1'', ''2''] (Some ''a'') # script)) =
   (([''1'', ''2''], Ok (Some \<lparr>np_Offset = ''a'', np_Path = [], np_URI = []\<rparr>)),
    \<lparr>store = (\<lambda>a. Options_zero), sent = [ex_listing ''limit=100''], net = script\<rparr>)"
  by (simp add: transport_defs instance_defs itoa_nat.simps)

lemma listing_page2:
  "Projects (ex_client Options_zero) (ex_lib Unmarshal_gids) ''7''
     (Some (AllProjects_page \<lparr>np_Offset = ''a'', np_Path = [], np_URI = []\<rparr> # range_slice None))
     \<lparr>store = (\<lambda>a. Options_zero), sent = [ex_listing ''limit=100''],
      net = ex_page [''3''] (Some ''b'') # script\<rparr> =
   (([''3''], Ok (Some \<lparr>np_Offset = ''b'', np_Path = [], np_URI = []\<rparr>)),
    \<lparr>store = (\<lambda>a. Options_zero),
     sent = [ex_listing ''limit=100'', ex_listing ''limit=100&offset=a''], net = script\<rparr>)"
  by (simp add: transport_defs instance_defs itoa_nat.simps)

lemma listing_page3:
  "Projects (ex_client Options_zero) (ex_lib Unmarshal_gids) ''7''
     (Some (AllProjects_page \<lparr>np_Offset = ''b'', np_Path = [], np_URI = []\<rparr> # range_slice None))
     \<lparr>store = (\<lambda>a. Options_zero),
      sent = [ex_listing ''limit=100'', ex_listing ''limit=100&offset=a''],
      net = ex_page [''4'', ''5''] None # script\<rparr> =
   (([''4'', ''5''], Ok None),
    \<lparr>store = (\<lambda>a. Options_zero),
     sent = [ex_listing ''limit=100'', ex_listing ''limit=100&offset=a'',
             ex_listing ''limit=100&offset=b''],
     net = script\<rparr>)"
  by (simp add: transport_defs instance_defs itoa_nat.simps)

lemma listing_page2_fails:
  "Projects (ex_client Options_zero) (ex_lib Unmarshal_gids) ''7''
     (Some (AllProjects_page \<lparr>np_Offset = ''a'', np_Path = [], np_URI = []\<rparr> # range_slice None))
     \<lparr>store = (\<lambda>a. Options_zero), sent = [ex_listing ''limit=100''],
      net = Inl (Failure ''connection reset'') # script\<rparr> =
   (([], Err (Wrap (Failure ''connection reset'') ''GET error'')),
    \<lparr>store = (\<lambda>a. Options_zero),
     sent = [ex_listing ''limit=100'', ex_listing ''limit=100&offset=a''], net = script\<rparr>)"
  by (simp add: transport_defs instance_defs itoa_nat.simps)

theorem AllProjects_three_pages_witness:
  "AllProjects (ex_client Options_zero) (ex_lib Unmarshal_gids) ''7'' None
     (ex_world Options_zero
        [ex_page [''1'', ''2''] (Some ''a''), ex_page [''3''] (Some ''b''), ex_page [''4'', ''5''] None]) =
   Some (Ok ([''1'', ''2''] @ [''3''] @ [''4'', ''5'']),
         \<lparr>store = (\<lambda>a. Options_zero),
          sent = [ex_listing ''limit=100'', ex_listing ''limit=100&offset=a'',
                  ex_listing ''limit=100&offset=b''],
          net = []\<rparr>) \<and>
   AllProjects (ex_client Options_zero) (ex_lib Unmarshal_gids) ''7'' None
     (ex_world Options_zero [ex_page [''1'', ''2''] (Some ''a''), Inl (Failure ''connection reset'')]) =
   Some (Err (Wrap (Failure ''connection reset'') ''GET error''),
         \<lparr>store = (\<lambda>a. Options_zero),
          sent = [ex_listing ''limit=100'', ex_listing ''limit=100&offset=a''],
          net = []\<rparr>)"
proof -
  note ok = AllProjects_three_pages [THEN conjunct1, THEN mp, OF conjI, OF listing_page1 conjI,
      OF listing_page2 listing_page3]
  note failed = AllProjects_three_pages [THEN conjunct2, THEN conjunct2, THEN conjunct1, THEN mp,
      OF conjI, OF listing_page1 listing_page2_fails]
  from ok failed show ?thesis
    by simp
qed

end
